theory Spec2Isabelle
  imports Main "HOL-Library.Word" "HOL-Library.AList"
begin

section \<open>The memfs adapter of wasi-fs-access\<close>

text \<open>
  The development embeds \<^verbatim>\<open>src/memfs-adapter.ts\<close>: the file and directory handles,
  the buffered writable stream and \<^verbatim>\<open>createMemoryFileSystem\<close>. Every method is a
  function of the state it reads and returns the state it leaves; an exception is a value
  of type \<open>error\<close>. Numbers are modelled by \<open>int\<close>, that is, the integer-valued
  JavaScript numbers; fractional numbers, \<^verbatim>\<open>NaN\<close> and the infinities are outside the model.
  The sum of a position and a length is exact in the source when its magnitude is below
  \<open>2 ^ 53\<close>; from there on the exact sum and the rounded one of the source are both
  negative or both beyond every array, and a write fails with either.
\<close>

subsection \<open>JavaScript strings and typed arrays\<close>

type_synonym byte = "8 word"

text \<open>\<^verbatim>\<open>s.split(c)\<close> for a one-character separator: the pieces, empty ones included.\<close>

fun split_on :: "char \<Rightarrow> string \<Rightarrow> string list" where
  "split_on c [] = [[]]"
| "split_on c (x # xs) =
     (if x = c then [] # split_on c xs
      else (case split_on c xs of [] \<Rightarrow> [[x]] | w # ws \<Rightarrow> (x # w) # ws))"

text \<open>\<^verbatim>\<open>s.lastIndexOf(c)\<close>: the greatest index holding \<open>c\<close>, or \<open>-1\<close>.\<close>

definition lastIndexOf :: "string \<Rightarrow> char \<Rightarrow> int" where
  "lastIndexOf s c =
     (if c \<in> set s
      then int (length s) - 1 - int (length (takeWhile (\<lambda>x. x \<noteq> c) (rev s)))
      else - 1)"

text \<open>
  \<^verbatim>\<open>s.substring(a, b)\<close>: both indices are clamped to \<open>[0, length]\<close> and swapped when
  out of order.
\<close>

definition substring :: "string \<Rightarrow> int \<Rightarrow> int \<Rightarrow> string" where
  "substring s a b =
     (let len = int (length s);
          a' = min (max a 0) len;
          b' = min (max b 0) len;
          lo = min a' b';
          hi = max a' b'
      in take (nat (hi - lo)) (drop (nat lo) s))"

text \<open>
  A string passed to the volume as file content is stored as its UTF-8 bytes. A HOL
  character is one byte, so the ASCII literals of the source encode to themselves.
\<close>

definition utf8_encode :: "string \<Rightarrow> byte list" where
  "utf8_encode s = map (\<lambda>c. of_nat (of_char c)) s"

datatype errno = ENOENT | EISDIR | ENOTDIR | EEXIST | ENOTEMPTY

text \<open>
  The exceptions the adapter can raise: a \<^verbatim>\<open>DOMException\<close> with its message and name,
  a plain \<^verbatim>\<open>Error\<close> with its message, the \<^verbatim>\<open>RangeError\<close> of a typed array, and a
  volume error passed on unchanged.
\<close>

datatype error =
    DOMException string string
  | Error string
  | RangeError
  | VolumeError errno

text \<open>
  \<^verbatim>\<open>new Uint8Array(n)\<close> for an integer \<open>n\<close> raises a \<^verbatim>\<open>RangeError\<close> when \<open>n\<close> is
  negative, when it is above \<open>2 ^ 53 - 1\<close> (the bound of \<^verbatim>\<open>ToIndex\<close>) and when it is
  above the greatest length the engine gives a typed array; otherwise it is \<open>n\<close> zero
  bytes. The greatest length differs from engine to engine: it is the parameter
  \<open>limit\<close> of every function that allocates.
\<close>

definition max_byte_length :: "nat \<Rightarrow> int" where
  "max_byte_length limit = min (int limit) (2 ^ 53 - 1)"

definition new_Uint8Array :: "nat \<Rightarrow> int \<Rightarrow> error + byte list" where
  "new_Uint8Array limit n =
     (if n < 0 \<or> n > max_byte_length limit then Inl RangeError
      else Inr (replicate (nat n) 0))"

text \<open>
  \<^verbatim>\<open>target.set(source, offset)\<close> on typed arrays: a \<^verbatim>\<open>RangeError\<close> when the offset
  is negative or the source does not fit, otherwise the source overwrites
  \<open>[offset, offset + length source)\<close>.
\<close>

definition ta_set :: "byte list \<Rightarrow> byte list \<Rightarrow> int \<Rightarrow> error + byte list" where
  "ta_set target source offset =
     (if offset < 0 \<or> offset + int (length source) > int (length target)
      then Inl RangeError
      else Inr (take (nat offset) target @ source
                @ drop (nat offset + length source) target))"

text \<open>
  \<^verbatim>\<open>a.slice(0, end)\<close> on a typed array: a negative \<open>end\<close> counts from the end of the
  array, and the result is clamped to the array.
\<close>

definition ta_slice0 :: "byte list \<Rightarrow> int \<Rightarrow> byte list" where
  "ta_slice0 a end =
     (let len = int (length a);
          final = (if end < 0 then max (len + end) 0 else min end len)
      in take (nat final) a)"

subsection \<open>The volume\<close>

text \<open>
  Modelled from the spec: the \<^verbatim>\<open>Volume\<close> class of the memfs-browser package, which the
  adapter imports, is not part of the repository. Its model follows sections 3 and 4.1 of
  the specification: a node is a file holding bytes or a directory holding named entries in
  insertion order, and each operation either returns its result or fails with one of the
  error codes the specification lists for it. Timestamps come from the host clock and are
  left out. A path is split at \<open>/\<close>; empty components are dropped, so that \<open>/\<close> is the
  root, and every other component is the name of an entry.
\<close>

datatype node = File "byte list" | Dir "(string \<times> node) list"

type_synonym volume = node

record stats =
  isDirectory :: bool
  st_size :: nat

definition new_Volume :: volume where
  "new_Volume = Dir []"

definition steps :: "string \<Rightarrow> string list" where
  "steps p = filter (\<lambda>s. s \<noteq> []) (split_on (CHR ''/'') p)"

text \<open>
  The names of the data model: non-empty, without \<open>/\<close> and NUL. The components \<open>.\<close>
  and \<open>..\<close> are normalised away by the path resolver and never name an entry.
\<close>

definition valid_name :: "string \<Rightarrow> bool" where
  "valid_name n \<longleftrightarrow>
     n \<noteq> [] \<and> CHR ''/'' \<notin> set n \<and> CHR 0x00 \<notin> set n \<and> n \<noteq> ''.'' \<and> n \<noteq> ''..''"

fun lookup :: "node \<Rightarrow> string list \<Rightarrow> node option" where
  "lookup n [] = Some n"
| "lookup (File b) (k # ks) = None"
| "lookup (Dir es) (k # ks) =
     (case map_of es k of None \<Rightarrow> None | Some c \<Rightarrow> lookup c ks)"

text \<open>Modelled from the spec: \<open>stat(path) \<rightarrow> metadata | ENOENT\<close>.\<close>

definition statSync :: "volume \<Rightarrow> string \<Rightarrow> errno + stats" where
  "statSync vol p =
     (case lookup vol (steps p) of
        None \<Rightarrow> Inl ENOENT
      | Some (File b) \<Rightarrow> Inr \<lparr>isDirectory = False, st_size = length b\<rparr>
      | Some (Dir es) \<Rightarrow> Inr \<lparr>isDirectory = True, st_size = 0\<rparr>)"

text \<open>Modelled from the spec: \<open>read_file(path) \<rightarrow> bytes | ENOENT | EISDIR\<close>.\<close>

definition readFileSync :: "volume \<Rightarrow> string \<Rightarrow> errno + byte list" where
  "readFileSync vol p =
     (case lookup vol (steps p) of
        None \<Rightarrow> Inl ENOENT
      | Some (File b) \<Rightarrow> Inr b
      | Some (Dir es) \<Rightarrow> Inl EISDIR)"

text \<open>
  Modelled from the spec: \<open>write_file(path, bytes)\<close> replaces the contents of a file or
  adds a new file as the last entry of its parent; it creates no intermediate component
  and fails with \<open>ENOENT\<close> when the parent is missing. Writing onto a directory fails
  with \<open>EISDIR\<close>.
\<close>

fun write_node :: "node \<Rightarrow> string list \<Rightarrow> byte list \<Rightarrow> errno + node" where
  "write_node (File old) [] b = Inr (File b)"
| "write_node (Dir es) [] b = Inl EISDIR"
| "write_node (File old) (k # ks) b = Inl ENOENT"
| "write_node (Dir es) (k # ks) b =
     (case map_of es k of
        None \<Rightarrow>
          (if ks = [] then Inr (Dir (AList.update k (File b) es)) else Inl ENOENT)
      | Some c \<Rightarrow>
          (case write_node c ks b of
             Inl e \<Rightarrow> Inl e
           | Inr c' \<Rightarrow> Inr (Dir (AList.update k c' es))))"

definition writeFileSync :: "volume \<Rightarrow> string \<Rightarrow> byte list \<Rightarrow> errno + volume" where
  "writeFileSync vol p b = write_node vol (steps p) b"

text \<open>
  Modelled from the spec: \<open>mkdir(path, recursive?) \<rightarrow> () | EEXIST | ENOENT | ENOTDIR\<close>.
  The recursive form creates every missing component and succeeds on a directory that is
  already there; a file on the way is \<open>ENOTDIR\<close>.
\<close>

fun mkdirp :: "node \<Rightarrow> string list \<Rightarrow> errno + node" where
  "mkdirp (File b) ks = Inl ENOTDIR"
| "mkdirp (Dir es) [] = Inr (Dir es)"
| "mkdirp (Dir es) (k # ks) =
     (case mkdirp (case map_of es k of None \<Rightarrow> Dir [] | Some c \<Rightarrow> c) ks of
        Inl e \<Rightarrow> Inl e
      | Inr c' \<Rightarrow> Inr (Dir (AList.update k c' es)))"

fun mkdir1 :: "node \<Rightarrow> string list \<Rightarrow> errno + node" where
  "mkdir1 n [] = Inl EEXIST"
| "mkdir1 (File b) (k # ks) = Inl ENOTDIR"
| "mkdir1 (Dir es) (k # ks) =
     (case map_of es k of
        None \<Rightarrow>
          (if ks = [] then Inr (Dir (AList.update k (Dir []) es)) else Inl ENOENT)
      | Some c \<Rightarrow>
          (case mkdir1 c ks of
             Inl e \<Rightarrow> Inl e
           | Inr c' \<Rightarrow> Inr (Dir (AList.update k c' es))))"

definition mkdirSync :: "volume \<Rightarrow> string \<Rightarrow> bool \<Rightarrow> errno + volume" where
  "mkdirSync vol p recursive =
     (if recursive then mkdirp vol (steps p) else mkdir1 vol (steps p))"

text \<open>
  Modelled from the spec: \<open>readdir(path) \<rightarrow> ordered sequence of names | ENOENT | ENOTDIR\<close>,
  in insertion order.
\<close>

definition readdirSync :: "volume \<Rightarrow> string \<Rightarrow> errno + string list" where
  "readdirSync vol p =
     (case lookup vol (steps p) of
        None \<Rightarrow> Inl ENOENT
      | Some (File b) \<Rightarrow> Inl ENOTDIR
      | Some (Dir es) \<Rightarrow> Inr (map fst es))"

text \<open>Dropping the entry a path names, with everything below it. The root stays.\<close>

fun remove_node :: "node \<Rightarrow> string list \<Rightarrow> node" where
  "remove_node n [] = n"
| "remove_node (File b) (k # ks) = File b"
| "remove_node (Dir es) (k # ks) =
     (if ks = [] then Dir (AList.delete k es)
      else (case map_of es k of
              None \<Rightarrow> Dir es
            | Some c \<Rightarrow> Dir (AList.update k (remove_node c ks) es)))"

text \<open>Modelled from the spec: \<open>unlink(path) \<rightarrow> () | ENOENT | EISDIR\<close>.\<close>

definition unlinkSync :: "volume \<Rightarrow> string \<Rightarrow> errno + volume" where
  "unlinkSync vol p =
     (case lookup vol (steps p) of
        None \<Rightarrow> Inl ENOENT
      | Some (Dir es) \<Rightarrow> Inl EISDIR
      | Some (File b) \<Rightarrow> Inr (remove_node vol (steps p)))"

text \<open>Modelled from the spec: \<open>rmdir(path) \<rightarrow> () | ENOENT | ENOTDIR | ENOTEMPTY\<close>.\<close>

definition rmdirSync :: "volume \<Rightarrow> string \<Rightarrow> errno + volume" where
  "rmdirSync vol p =
     (case lookup vol (steps p) of
        None \<Rightarrow> Inl ENOENT
      | Some (File b) \<Rightarrow> Inl ENOTDIR
      | Some (Dir es) \<Rightarrow>
          (if es \<noteq> [] then Inl ENOTEMPTY else Inr (remove_node vol (steps p))))"

text \<open>
  Modelled from the spec: the recursive removal the data model mentions
  (\<^verbatim>\<open>rmSync(path, {recursive, force})\<close>). With \<open>force\<close> a missing path is no error.
\<close>

definition rmSync :: "volume \<Rightarrow> string \<Rightarrow> bool \<Rightarrow> bool \<Rightarrow> errno + volume" where
  "rmSync vol p recursive force =
     (case lookup vol (steps p) of
        None \<Rightarrow> (if force then Inr vol else Inl ENOENT)
      | Some (File b) \<Rightarrow> Inr (remove_node vol (steps p))
      | Some (Dir es) \<Rightarrow>
          (if recursive then Inr (remove_node vol (steps p)) else Inl EISDIR))"

subsection \<open>File and directory handles\<close>

text \<open>
  A handle is the pair of the shared volume and an absolute path. The volume is the state
  every method reads and, where it mutates, returns; the handle itself is its path.
\<close>

datatype file_handle = MemfsFileHandle string

datatype directory_handle = MemfsDirectoryHandle string

datatype entry_handle = FileEntry file_handle | DirectoryEntry directory_handle

text \<open>The \<^verbatim>\<open>File\<close> object \<^verbatim>\<open>getFile\<close> builds: its name and its bytes.\<close>

record js_file =
  file_name :: string
  file_bytes :: "byte list"

definition file_size :: "js_file \<Rightarrow> int" where
  "file_size f = int (length (file_bytes f))"

text \<open>The getter \<^verbatim>\<open>name\<close>: \<^verbatim>\<open>this.path.split('/').pop() || ''\<close>.\<close>

definition handle_name :: "string \<Rightarrow> string" where
  "handle_name this_path = last (split_on (CHR ''/'') this_path)"

text \<open>
  The path of an entry, as every method of the directory handle computes it:
  \<^verbatim>\<open>this.path === '/' ? `/${name}` : `${this.path}/${name}`\<close>.
\<close>

definition entry_path :: "string \<Rightarrow> string \<Rightarrow> string" where
  "entry_path this_path name =
     (if this_path = ''/'' then ''/'' @ name else this_path @ ''/'' @ name)"

definition getFile :: "volume \<Rightarrow> string \<Rightarrow> error + js_file" where
  "getFile vol this_path =
     (let catch = (\<lambda>code. if code = ENOENT
                     then DOMException ''File not found'' ''NotFoundError''
                     else VolumeError code)
      in case readFileSync vol this_path of
           Inl code \<Rightarrow> Inl (catch code)
         | Inr buf \<Rightarrow>
             (case statSync vol this_path of
                Inl code \<Rightarrow> Inl (catch code)
              | Inr st \<Rightarrow> Inr \<lparr>file_name = handle_name this_path, file_bytes = buf\<rparr>))"

text \<open>
  In \<^verbatim>\<open>getFileHandle\<close> and \<^verbatim>\<open>getDirectoryHandle\<close> the \<^verbatim>\<open>DOMException\<close> raised inside
  the \<^verbatim>\<open>try\<close> block reaches the \<^verbatim>\<open>catch\<close> clause, whose test \<^verbatim>\<open>err.code === 'ENOENT'\<close>
  fails for it (the \<^verbatim>\<open>code\<close> of a \<^verbatim>\<open>DOMException\<close> is a number), so it is raised
  again unchanged. An error of the volume raised inside the \<^verbatim>\<open>catch\<close> clause is not
  caught.
\<close>

definition getFileHandle ::
  "volume \<Rightarrow> string \<Rightarrow> string \<Rightarrow> bool \<Rightarrow> (error + file_handle) \<times> volume" where
  "getFileHandle vol this_path name create =
     (let filePath = entry_path this_path name
      in case statSync vol filePath of
           Inr st \<Rightarrow>
             (if isDirectory st
              then (Inl (DOMException ''Path is a directory'' ''TypeMismatchError''), vol)
              else (Inr (MemfsFileHandle filePath), vol))
         | Inl code \<Rightarrow>
             (if code = ENOENT then
                (if create then
                   (case writeFileSync vol filePath (utf8_encode []) of
                      Inl e \<Rightarrow> (Inl (VolumeError e), vol)
                    | Inr vol' \<Rightarrow> (Inr (MemfsFileHandle filePath), vol'))
                 else (Inl (DOMException ''File not found'' ''NotFoundError''), vol))
              else (Inl (VolumeError code), vol)))"

definition getDirectoryHandle ::
  "volume \<Rightarrow> string \<Rightarrow> string \<Rightarrow> bool \<Rightarrow> (error + directory_handle) \<times> volume" where
  "getDirectoryHandle vol this_path name create =
     (let dirPath = entry_path this_path name
      in case statSync vol dirPath of
           Inr st \<Rightarrow>
             (if \<not> isDirectory st
              then (Inl (DOMException ''Path is not a directory'' ''TypeMismatchError''), vol)
              else (Inr (MemfsDirectoryHandle dirPath), vol))
         | Inl code \<Rightarrow>
             (if code = ENOENT then
                (if create then
                   (case mkdirSync vol dirPath True of
                      Inl e \<Rightarrow> (Inl (VolumeError e), vol)
                    | Inr vol' \<Rightarrow> (Inr (MemfsDirectoryHandle dirPath), vol'))
                 else (Inl (DOMException ''Directory not found'' ''NotFoundError''), vol))
              else (Inl (VolumeError code), vol)))"

text \<open>The \<^verbatim>\<open>catch\<close> clause of \<^verbatim>\<open>removeEntry\<close>.\<close>

definition removeEntry_catch :: "errno \<Rightarrow> error" where
  "removeEntry_catch code =
     (if code = ENOENT then DOMException ''Entry not found'' ''NotFoundError''
      else if code = ENOTEMPTY
      then DOMException ''Directory not empty'' ''InvalidModificationError''
      else VolumeError code)"

definition removeEntry ::
  "volume \<Rightarrow> string \<Rightarrow> string \<Rightarrow> bool \<Rightarrow> (error + unit) \<times> volume" where
  "removeEntry vol this_path name recursive =
     (let entryPath = entry_path this_path name;
          finish = (\<lambda>r. case r of
                          Inl code \<Rightarrow> (Inl (removeEntry_catch code), vol)
                        | Inr vol' \<Rightarrow> (Inr (), vol'))
      in case statSync vol entryPath of
           Inl code \<Rightarrow> (Inl (removeEntry_catch code), vol)
         | Inr st \<Rightarrow>
             (if isDirectory st then
                (if recursive then finish (rmSync vol entryPath True True)
                 else finish (rmdirSync vol entryPath))
              else finish (unlinkSync vol entryPath)))"

text \<open>
  The generators \<^verbatim>\<open>values\<close> and \<^verbatim>\<open>keys\<close>, run to their end on one volume: the items
  yielded, and the exception that ended the iteration, if any.
\<close>

fun values_loop ::
  "volume \<Rightarrow> string \<Rightarrow> string list \<Rightarrow> entry_handle list \<times> error option" where
  "values_loop vol this_path [] = ([], None)"
| "values_loop vol this_path (entry # entries) =
     (let entryPath = entry_path this_path entry
      in case statSync vol entryPath of
           Inl code \<Rightarrow>
             ([], Some (if code = ENOENT
                        then DOMException ''Directory not found'' ''NotFoundError''
                        else VolumeError code))
         | Inr st \<Rightarrow>
             (case values_loop vol this_path entries of
                (hs, r) \<Rightarrow>
                  ((if isDirectory st
                    then DirectoryEntry (MemfsDirectoryHandle entryPath)
                    else FileEntry (MemfsFileHandle entryPath)) # hs, r)))"

definition values_of :: "volume \<Rightarrow> string \<Rightarrow> entry_handle list \<times> error option" where
  "values_of vol this_path =
     (case readdirSync vol this_path of
        Inl code \<Rightarrow>
          ([], Some (if code = ENOENT
                     then DOMException ''Directory not found'' ''NotFoundError''
                     else VolumeError code))
      | Inr entries \<Rightarrow> values_loop vol this_path entries)"

definition keys :: "volume \<Rightarrow> string \<Rightarrow> string list \<times> error option" where
  "keys vol this_path =
     (case readdirSync vol this_path of
        Inl code \<Rightarrow>
          ([], Some (if code = ENOENT
                     then DOMException ''Directory not found'' ''NotFoundError''
                     else VolumeError code))
      | Inr entries \<Rightarrow> (entries, None))"

subsection \<open>The writable stream\<close>

record stream =
  path :: string
  data :: "byte list"
  position :: int
  closed :: bool

text \<open>
  The constructor; \<^verbatim>\<open>createWritable\<close> of a file handle only calls it. The field
  \<open>data\<close> starts as \<^verbatim>\<open>new Uint8Array()\<close>, the empty array;
  \<^verbatim>\<open>new Uint8Array(existing)\<close> copies an array that is there.
\<close>

definition MemfsWritableFileStream :: "volume \<Rightarrow> string \<Rightarrow> bool \<Rightarrow> error + stream" where
  "MemfsWritableFileStream vol p keepExistingData =
     (let this = \<lparr>path = p, data = [], position = 0, closed = False\<rparr>
      in if keepExistingData then
           (case readFileSync vol p of
              Inr existing \<Rightarrow>
                Inr (this\<lparr>data := existing, position := int (length existing)\<rparr>)
            | Inl code \<Rightarrow> (if code \<noteq> ENOENT then Inl (VolumeError code) else Inr this))
         else Inr this)"

definition createWritable :: "volume \<Rightarrow> file_handle \<Rightarrow> bool \<Rightarrow> error + stream" where
  "createWritable vol h keepExistingData =
     (case h of MemfsFileHandle p \<Rightarrow> MemfsWritableFileStream vol p keepExistingData)"

text \<open>
  The method \<^verbatim>\<open>write\<close> is named \<open>write_stream\<close> here. Its argument is a bare
  \<^verbatim>\<open>Uint8Array\<close> or the object \<^verbatim>\<open>{type: 'write', position?, data}\<close>.
\<close>

datatype write_arg = Chunk "byte list" | WriteParams "int option" "byte list"

definition writeData :: "write_arg \<Rightarrow> byte list" where
  "writeData arg = (case arg of Chunk d \<Rightarrow> d | WriteParams pos d \<Rightarrow> d)"

definition writePosition :: "stream \<Rightarrow> write_arg \<Rightarrow> int" where
  "writePosition this arg =
     (case arg of
        Chunk d \<Rightarrow> position this
      | WriteParams pos d \<Rightarrow> (case pos of None \<Rightarrow> position this | Some q \<Rightarrow> q))"

definition write_stream ::
  "nat \<Rightarrow> stream \<Rightarrow> write_arg \<Rightarrow> (error + unit) \<times> stream" where
  "write_stream limit this arg =
     (if closed this then (Inl (Error ''Stream is closed''), this)
      else
        let requiredSize = writePosition this arg + int (length (writeData arg));
            grown =
              (if requiredSize > int (length (data this))
               then (case new_Uint8Array limit requiredSize of
                       Inl e \<Rightarrow> Inl e
                     | Inr newData \<Rightarrow>
                         (case ta_set newData (data this) 0 of
                            Inl e \<Rightarrow> Inl e
                          | Inr filled \<Rightarrow> Inr (this\<lparr>data := filled\<rparr>)))
               else Inr this)
        in case grown of
             Inl e \<Rightarrow> (Inl e, this)
           | Inr this1 \<Rightarrow>
               (case ta_set (data this1) (writeData arg) (writePosition this arg) of
                  Inl e \<Rightarrow> (Inl e, this1)
                | Inr d \<Rightarrow> (Inr (), this1\<lparr>data := d, position := requiredSize\<rparr>)))"

definition seek :: "stream \<Rightarrow> int \<Rightarrow> (error + unit) \<times> stream" where
  "seek this pos =
     (if closed this then (Inl (Error ''Stream is closed''), this)
      else (Inr (), this\<lparr>position := pos\<rparr>))"

definition truncate :: "nat \<Rightarrow> stream \<Rightarrow> int \<Rightarrow> (error + unit) \<times> stream" where
  "truncate limit this sz =
     (if closed this then (Inl (Error ''Stream is closed''), this)
      else
        let resized =
              (if sz < int (length (data this))
               then Inr (this\<lparr>data := ta_slice0 (data this) sz\<rparr>)
               else if sz > int (length (data this))
               then (case new_Uint8Array limit sz of
                       Inl e \<Rightarrow> Inl e
                     | Inr newData \<Rightarrow>
                         (case ta_set newData (data this) 0 of
                            Inl e \<Rightarrow> Inl e
                          | Inr filled \<Rightarrow> Inr (this\<lparr>data := filled\<rparr>)))
               else Inr this)
        in case resized of
             Inl e \<Rightarrow> (Inl e, this)
           | Inr this1 \<Rightarrow>
               (Inr (), if position this1 > sz then this1\<lparr>position := sz\<rparr> else this1))"

text \<open>
  \<^verbatim>\<open>close\<close> sets the flag first, so an exception of the volume leaves the stream closed.
  Only \<open>EEXIST\<close> from \<^verbatim>\<open>mkdirSync\<close> is swallowed.
\<close>

definition close :: "volume \<Rightarrow> stream \<Rightarrow> (error + unit) \<times> volume \<times> stream" where
  "close vol this =
     (if closed this then (Inr (), vol, this)
      else
        let this1 = this\<lparr>closed := True\<rparr>;
            dir = substring (path this1) 0 (lastIndexOf (path this1) (CHR ''/''));
            made =
              (if dir \<noteq> [] \<and> dir \<noteq> ''/'' then
                 (case mkdirSync vol dir True of
                    Inl code \<Rightarrow> (if code \<noteq> EEXIST then Inl (VolumeError code) else Inr vol)
                  | Inr vol' \<Rightarrow> Inr vol')
               else Inr vol)
        in case made of
             Inl e \<Rightarrow> (Inl e, vol, this1)
           | Inr vol1 \<Rightarrow>
               (case writeFileSync vol1 (path this1) (data this1) of
                  Inl code \<Rightarrow> (Inl (VolumeError code), vol1, this1)
                | Inr vol2 \<Rightarrow> (Inr (), vol2, this1)))"

subsection \<open>The initial file system\<close>

definition createMemoryFileSystem :: "error + directory_handle \<times> volume" where
  "createMemoryFileSystem =
     (case mkdirSync new_Volume ''/sandbox'' True of
        Inl code \<Rightarrow> Inl (VolumeError code)
      | Inr v1 \<Rightarrow>
     (case mkdirSync v1 ''/tmp'' True of
        Inl code \<Rightarrow> Inl (VolumeError code)
      | Inr v2 \<Rightarrow>
     (case writeFileSync v2 ''/sandbox/input.txt''
             (utf8_encode (''hello from input.txt'' @ [CHR 0x0A])) of
        Inl code \<Rightarrow> Inl (VolumeError code)
      | Inr v3 \<Rightarrow>
     (case writeFileSync v3 ''/sandbox/input2.txt''
             (utf8_encode (''hello from input2.txt'' @ [CHR 0x0A])) of
        Inl code \<Rightarrow> Inl (VolumeError code)
      | Inr v4 \<Rightarrow>
     (case writeFileSync v4 ''/sandbox/notadir'' (utf8_encode []) of
        Inl code \<Rightarrow> Inl (VolumeError code)
      | Inr v5 \<Rightarrow> Inr (MemfsDirectoryHandle ''/'', v5))))))"

subsection \<open>Sequences of calls\<close>

text \<open>
  A caller holding one stream on a volume makes calls one after the other; a call that
  raises leaves the state it had reached, and the caller goes on.
\<close>

datatype stream_call = Write write_arg | Seek int | Truncate int | Close

fun stream_exec ::
  "nat \<Rightarrow> volume \<times> stream \<Rightarrow> stream_call \<Rightarrow> (error + unit) \<times> (volume \<times> stream)" where
  "stream_exec limit (vol, s) (Write arg) =
     (case write_stream limit s arg of (r, s') \<Rightarrow> (r, (vol, s')))"
| "stream_exec limit (vol, s) (Seek pos) =
     (case seek s pos of (r, s') \<Rightarrow> (r, (vol, s')))"
| "stream_exec limit (vol, s) (Truncate sz) =
     (case truncate limit s sz of (r, s') \<Rightarrow> (r, (vol, s')))"
| "stream_exec limit (vol, s) Close =
     (case close vol s of (r, vol', s') \<Rightarrow> (r, (vol', s')))"

fun stream_run :: "nat \<Rightarrow> volume \<times> stream \<Rightarrow> stream_call list \<Rightarrow> volume \<times> stream" where
  "stream_run limit st [] = st"
| "stream_run limit st (c # cs) = stream_run limit (snd (stream_exec limit st c)) cs"

text \<open>The calls on handles, with the path of the handle they are made on.\<close>

datatype handle_call =
    GetFileHandle string string bool
  | GetDirectoryHandle string string bool
  | RemoveEntry string string bool
  | Values string
  | Keys string
  | GetFile string

datatype response =
    FileHandleResult "error + file_handle"
  | DirectoryHandleResult "error + directory_handle"
  | UnitResult "error + unit"
  | ValuesResult "entry_handle list \<times> error option"
  | KeysResult "string list \<times> error option"
  | FileResult "error + js_file"

fun handle_exec :: "volume \<Rightarrow> handle_call \<Rightarrow> response \<times> volume" where
  "handle_exec vol (GetFileHandle p name create) =
     (case getFileHandle vol p name create of (r, vol') \<Rightarrow> (FileHandleResult r, vol'))"
| "handle_exec vol (GetDirectoryHandle p name create) =
     (case getDirectoryHandle vol p name create of (r, vol') \<Rightarrow> (DirectoryHandleResult r, vol'))"
| "handle_exec vol (RemoveEntry p name recursive) =
     (case removeEntry vol p name recursive of (r, vol') \<Rightarrow> (UnitResult r, vol'))"
| "handle_exec vol (Values p) = (ValuesResult (values_of vol p), vol)"
| "handle_exec vol (Keys p) = (KeysResult (keys vol p), vol)"
| "handle_exec vol (GetFile p) = (FileResult (getFile vol p), vol)"

fun handle_run :: "volume \<Rightarrow> handle_call list \<Rightarrow> response list \<times> volume" where
  "handle_run vol [] = ([], vol)"
| "handle_run vol (c # cs) =
     (case handle_exec vol c of
        (r, vol') \<Rightarrow> (case handle_run vol' cs of (rs, vol'') \<Rightarrow> (r # rs, vol'')))"

fun non_mutating :: "handle_call \<Rightarrow> bool" where
  "non_mutating (Values p) = True"
| "non_mutating (Keys p) = True"
| "non_mutating (GetFile p) = True"
| "non_mutating c = False"

text \<open>The getters \<^verbatim>\<open>kind\<close> and \<^verbatim>\<open>name\<close> of the handles \<^verbatim>\<open>values\<close> yields.\<close>

fun kind :: "entry_handle \<Rightarrow> string" where
  "kind (FileEntry h) = ''file''"
| "kind (DirectoryEntry h) = ''directory''"

fun entry_name :: "entry_handle \<Rightarrow> string" where
  "entry_name (FileEntry (MemfsFileHandle p)) = handle_name p"
| "entry_name (DirectoryEntry (MemfsDirectoryHandle p)) = handle_name p"

subsection \<open>Redirection in the shell\<close>

text \<open>
  The shell of the browser front end redirects the standard output of a run with \<^verbatim>\<open>>\<close>
  and \<^verbatim>\<open>>>\<close>. The handle it gets from \<^verbatim>\<open>getFileOrDir\<close> and the chunks the program
  writes through \<^verbatim>\<open>Bindings\<close> are parameters here: \<^verbatim>\<open>fileSystem.ts\<close> and
  \<^verbatim>\<open>bindings.ts\<close> are not among the sources. The call of \<^verbatim>\<open>seek\<close> is not awaited, and
  the stream is closed when the run is over.
\<close>

definition redirectedStdout :: "volume \<Rightarrow> file_handle \<Rightarrow> string \<Rightarrow> error + stream" where
  "redirectedStdout vol handle operator =
     (if operator = ''>'' then createWritable vol handle False
      else
        (case createWritable vol handle True of
           Inl e \<Rightarrow> Inl e
         | Inr w \<Rightarrow>
             (case getFile vol (case handle of MemfsFileHandle p \<Rightarrow> p) of
                Inl e \<Rightarrow> Inl e
              | Inr f \<Rightarrow> Inr (snd (seek w (file_size f))))))"

definition run_redirected ::
  "nat \<Rightarrow> volume \<Rightarrow> file_handle \<Rightarrow> string \<Rightarrow> byte list list \<Rightarrow> (error + unit) \<times> volume"
  where
  "run_redirected limit vol handle operator output =
     (case redirectedStdout vol handle operator of
        Inl e \<Rightarrow> (Inl e, vol)
      | Inr w \<Rightarrow>
          (case stream_run limit (vol, w) (map (\<lambda>d. Write (Chunk d)) output) of
             (vol1, w1) \<Rightarrow> (case close vol1 w1 of (r, vol2, w2) \<Rightarrow> (r, vol2))))"

section \<open>Properties of the stream buffer\<close>

lemma new_Uint8Array_within:
  "0 \<le> n \<Longrightarrow> n \<le> max_byte_length limit \<Longrightarrow>
   new_Uint8Array limit n = Inr (replicate (nat n) 0)"
  by (simp add: new_Uint8Array_def)

lemma new_Uint8Array_beyond:
  "max_byte_length limit < n \<Longrightarrow> new_Uint8Array limit n = Inl RangeError"
  by (simp add: new_Uint8Array_def)

lemma ta_set_grow:
  "int (length old) \<le> n \<Longrightarrow>
   ta_set (replicate (nat n) 0) old 0 = Inr (old @ replicate (nat n - length old) 0)"
  unfolding ta_set_def
  by auto

lemma ta_set_fits:
  "0 \<le> off \<Longrightarrow> off + int (length src) \<le> int (length tgt) \<Longrightarrow>
   ta_set tgt src off = Inr (take (nat off) tgt @ src @ drop (nat off + length src) tgt)"
  by (simp add: ta_set_def)

text \<open>
  A write at a non-negative position succeeds when the buffer need not grow or the grown
  buffer can be allocated, and this is the buffer it leaves.
\<close>

lemma write_nonneg:
  assumes "\<not> closed s" "0 \<le> writePosition s arg"
      and "writePosition s arg + int (length (writeData arg))
           \<le> max (int (length (data s))) (max_byte_length limit)"
  shows "write_stream limit s arg =
     (Inr (),
      s\<lparr>data := take (nat (writePosition s arg)) (data s)
                @ replicate (nat (writePosition s arg) - length (data s)) 0
                @ writeData arg
                @ drop (nat (writePosition s arg) + length (writeData arg)) (data s),
        position := writePosition s arg + int (length (writeData arg))\<rparr>)"
proof (cases "writePosition s arg + int (length (writeData arg)) > int (length (data s))")
  case True
  define q where "q = writePosition s arg"
  define d where "d = writeData arg"
  define grown where "grown = data s @ replicate (nat (q + int (length d)) - length (data s)) 0"
  have len: "int (length grown) = q + int (length d)"
    using True assms by (simp add: grown_def q_def d_def)
  have a: "new_Uint8Array limit (q + int (length d))
           = Inr (replicate (nat (q + int (length d))) 0)"
    using True assms(2,3) by (intro new_Uint8Array_within) (simp_all add: q_def d_def)
  have g: "ta_set (replicate (nat (q + int (length d))) 0) (data s) 0 = Inr grown"
    unfolding grown_def using True by (intro ta_set_grow) (simp add: q_def d_def)
  have w: "ta_set grown d q = Inr (take (nat q) grown @ d @ drop (nat q + length d) grown)"
    using assms len by (intro ta_set_fits) (simp_all add: q_def)
  have t: "take (nat q) grown = take (nat q) (data s) @ replicate (nat q - length (data s)) 0"
    using assms(2) by (simp add: grown_def q_def nat_add_distrib)
  have dr: "drop (nat q + length d) grown = []" "drop (nat q + length d) (data s) = []"
    using len True assms(2) by (simp_all add: q_def d_def nat_add_distrib nat_less_iff)
  show ?thesis
    using assms(1) True a g w
    by (simp add: write_stream_def Let_def q_def [symmetric] d_def [symmetric] t dr)
next
  case False
  then show ?thesis using assms(1,2)
    by (simp add: write_stream_def Let_def ta_set_def)
qed

text \<open>A write that needs a buffer the engine does not give fails and changes nothing.\<close>

lemma write_beyond_limit:
  assumes "\<not> closed s"
      and "int (length (data s)) < writePosition s arg + int (length (writeData arg))"
      and "max_byte_length limit < writePosition s arg + int (length (writeData arg))"
  shows "write_stream limit s arg = (Inl RangeError, s)"
  using assms by (simp add: write_stream_def Let_def new_Uint8Array_beyond)

lemma written_length:
  fixes old d :: "byte list"
  shows "length (take q old @ replicate (q - length old) 0 @ d @ drop (q + length d) old)
         = max (length old) (q + length d)"
  by (simp add: min_def max_def)

lemma written_nth:
  fixes old d :: "byte list"
  assumes "i < max (length old) (q + length d)"
  shows "(take q old @ replicate (q - length old) 0 @ d @ drop (q + length d) old) ! i
   = (if q \<le> i \<and> i < q + length d then d ! (i - q)
      else if i < length old then old ! i else 0)"
proof -
  define A where "A = take q old @ replicate (q - length old) 0"
  have lenA: "length A = q"
    by (simp add: A_def min_def)
  have A_nth: "A ! j = (if j < length old then old ! j else 0)" if "j < q" for j
    using that by (auto simp: A_def nth_append)
  have eq: "take q old @ replicate (q - length old) 0 @ d @ drop (q + length d) old
            = A @ d @ drop (q + length d) old"
    by (simp add: A_def)
  consider "i < q" | "q \<le> i" "i < q + length d" | "q + length d \<le> i"
    by linarith
  then show ?thesis
  proof cases
    case 1
    then show ?thesis
      unfolding eq by (simp add: nth_append lenA A_nth)
  next
    case 2
    then have "i - q < length d" by linarith
    with 2 show ?thesis
      unfolding eq by (simp add: nth_append lenA)
  next
    case 3
    then have "i < length old" using assms by simp
    moreover have "\<not> i - q < length d" using 3 by linarith
    ultimately show ?thesis
      using 3 unfolding eq by (simp add: nth_append lenA)
  qed
qed

lemma truncate_nonneg:
  assumes "\<not> closed s" "0 \<le> sz"
      and "sz \<le> max (int (length (data s))) (max_byte_length limit)"
  shows "truncate limit s sz =
     (Inr (),
      s\<lparr>data := take (nat sz) (data s) @ replicate (nat sz - length (data s)) 0,
        position := min (position s) sz\<rparr>)"
proof (cases "int (length (data s)) < sz")
  case True
  then have "new_Uint8Array limit sz = Inr (replicate (nat sz) 0)"
    using assms(2,3) by (intro new_Uint8Array_within) simp_all
  moreover have "ta_set (replicate (nat sz) 0) (data s) 0
                 = Inr (data s @ replicate (nat sz - length (data s)) 0)"
    using True by (intro ta_set_grow) simp
  ultimately show ?thesis
    using assms(1) True by (simp add: truncate_def Let_def min_def)
next
  case False
  then show ?thesis
    using assms(1,2) by (auto simp: truncate_def ta_slice0_def Let_def min_def)
qed

lemma truncate_beyond_limit:
  assumes "\<not> closed s" and "int (length (data s)) < sz" and "max_byte_length limit < sz"
  shows "truncate limit s sz = (Inl RangeError, s)"
  using assms by (simp add: truncate_def Let_def new_Uint8Array_beyond)






section \<open>Paths\<close>

lemma split_on_nonempty: "split_on c xs \<noteq> []"
  by (induction xs) (auto split: list.splits)

lemma split_on_no_sep: "c \<notin> set ys \<Longrightarrow> split_on c ys = [ys]"
  by (induction ys) auto

lemma split_on_append: "split_on c (xs @ c # ys) = split_on c xs @ split_on c ys"
  by (induction xs) (auto simp: split_on_nonempty split: list.splits)

lemma steps_append_name:
  assumes "valid_name name"
  shows "steps (xs @ CHR ''/'' # name) = steps xs @ [name]"
  using assms by (simp add: steps_def split_on_append split_on_no_sep valid_name_def)

lemma steps_root: "steps ''/'' = []"
  by (simp add: steps_def)

lemma steps_entry_path:
  assumes "valid_name name"
  shows "steps (entry_path this_path name) = steps this_path @ [name]"
proof (cases "this_path = ''/''")
  case True
  have "steps (''/'' @ name) = steps [] @ [name]"
    using steps_append_name [OF assms, of "[]"] by simp
  then show ?thesis using True by (simp add: entry_path_def steps_root steps_def)
next
  case False
  then show ?thesis
    using steps_append_name [OF assms, of this_path] by (simp add: entry_path_def)
qed

lemma lastIndexOf_append:
  assumes "c \<notin> set ys"
  shows "lastIndexOf (xs @ c # ys) c = int (length xs)"
proof -
  have "takeWhile (\<lambda>x. x \<noteq> c) (rev ys @ c # rev xs)
        = rev ys @ takeWhile (\<lambda>x. x \<noteq> c) (c # rev xs)"
    using assms by (intro takeWhile_append2) auto
  then have "takeWhile (\<lambda>x. x \<noteq> c) (rev ys @ c # rev xs) = rev ys"
    by simp
  then show ?thesis
    by (simp add: lastIndexOf_def)
qed

lemma substring_prefix: "substring (xs @ ys) 0 (int (length xs)) = xs"
  by (simp add: substring_def Let_def)

lemma dir_of_entry_path:
  assumes "valid_name name"
  shows "substring (entry_path this_path name) 0 (lastIndexOf (entry_path this_path name) (CHR ''/''))
         = (if this_path = ''/'' then [] else this_path)"
proof -
  have n: "CHR ''/'' \<notin> set name" using assms by (simp add: valid_name_def)
  show ?thesis
  proof (cases "this_path = ''/''")
    case True
    have "lastIndexOf ([] @ CHR ''/'' # name) (CHR ''/'') = 0"
      using lastIndexOf_append [OF n, of "[]"] by simp
    then show ?thesis using True by (simp add: entry_path_def substring_def)
  next
    case False
    have "lastIndexOf (this_path @ CHR ''/'' # name) (CHR ''/'') = int (length this_path)"
      by (rule lastIndexOf_append [OF n])
    then show ?thesis using False substring_prefix [of this_path "CHR ''/'' # name"]
      by (simp add: entry_path_def)
  qed
qed

lemma handle_name_entry_path:
  assumes "valid_name name"
  shows "handle_name (entry_path this_path name) = name"
proof -
  have n: "CHR ''/'' \<notin> set name" using assms by (simp add: valid_name_def)
  have "last (split_on (CHR ''/'') (xs @ CHR ''/'' # name)) = name" for xs
    by (simp add: split_on_append split_on_no_sep [OF n])
  from this [of "[]"] this [of this_path] show ?thesis
    by (simp add: handle_name_def entry_path_def)
qed

text \<open>
  The paths of the examples.
\<close>

lemma steps_sandbox: "steps ''/sandbox'' = [''sandbox'']" by (simp add: steps_def)

lemma steps_tmp: "steps ''/tmp'' = [''tmp'']" by (simp add: steps_def)

lemma steps_input: "steps ''/sandbox/input.txt'' = [''sandbox'', ''input.txt'']" by (simp add: steps_def)

lemma steps_input2: "steps ''/sandbox/input2.txt'' = [''sandbox'', ''input2.txt'']" by (simp add: steps_def)

lemma steps_notadir: "steps ''/sandbox/notadir'' = [''sandbox'', ''notadir'']" by (simp add: steps_def)

lemma steps_sandbox_d: "steps ''/sandbox/d'' = [''sandbox'', ''d'']" by (simp add: steps_def)

lemma steps_sandbox_d_x: "steps ''/sandbox/d/x'' = [''sandbox'', ''d'', ''x'']" by (simp add: steps_def)

lemma steps_sandbox_nowhere: "steps ''/sandbox/nowhere'' = [''sandbox'', ''nowhere'']" by (simp add: steps_def)

lemma steps_sandbox_notadir: "steps ''/sandbox/notadir'' = [''sandbox'', ''notadir'']" by (simp add: steps_def)


lemma steps_out: "steps ''/sandbox/out.txt'' = [''sandbox'', ''out.txt'']"
  by (simp add: steps_def)

lemma dir_out:
  "substring ''/sandbox/out.txt'' 0 (lastIndexOf ''/sandbox/out.txt'' (CHR ''/'')) = ''/sandbox''"
  by (simp add: substring_def lastIndexOf_def)


lemma name_out: "handle_name ''/sandbox/out.txt'' = ''out.txt''"
  by (simp add: handle_name_def)

section \<open>Properties of the volume\<close>

lemma lookup_append:
  "lookup n (ks @ ks') = (case lookup n ks of None \<Rightarrow> None | Some m \<Rightarrow> lookup m ks')"
proof (induction ks arbitrary: n)
  case Nil
  then show ?case by simp
next
  case (Cons k ks)
  then show ?case by (cases n) (auto split: option.splits)
qed

lemma parent_of_file:
  assumes "lookup n (ks @ [k]) = Some m"
  shows "\<exists>es. lookup n ks = Some (Dir es)"
  using assms
proof (induction ks arbitrary: n)
  case Nil
  then show ?case by (cases n) auto
next
  case (Cons k0 ks)
  then show ?case by (cases n) (auto split: option.splits)
qed

lemma lookup_missing_entry:
  assumes "lookup n ks = None" and "lookup n (butlast ks) = Some (Dir es)"
  shows "ks \<noteq> [] \<and> map_of es (last ks) = None"
proof -
  have ne: "ks \<noteq> []" using assms(1) by auto
  then have "ks = butlast ks @ [last ks]" by simp
  then have "lookup n ks = lookup (Dir es) [last ks]"
    using assms(2) by (metis lookup_append option.simps(5))
  then show ?thesis using assms(1) ne by (auto split: option.splits)
qed

lemma write_node_lookup:
  "write_node n ks b = Inr n' \<Longrightarrow> lookup n' ks = Some (File b)"
proof (induction n ks b arbitrary: n' rule: write_node.induct)
  case (4 es k ks b)
  then show ?case
    by (auto simp: update_conv' split: option.splits if_splits sum.splits)
qed auto

lemma write_node_existing:
  "lookup n ks = Some (File c) \<Longrightarrow> \<exists>n'. write_node n ks b = Inr n'"
proof (induction ks arbitrary: n)
  case Nil
  then show ?case by simp
next
  case (Cons k ks)
  then show ?case
    by (cases n) (fastforce split: option.splits sum.splits)+
qed

lemma write_node_create:
  "lookup n ks = Some (Dir es) \<Longrightarrow> map_of es k = None
   \<Longrightarrow> \<exists>n'. write_node n (ks @ [k]) b = Inr n'"
proof (induction ks arbitrary: n)
  case Nil
  then show ?case by simp
next
  case (Cons k0 ks)
  then show ?case
    by (cases n) (fastforce split: option.splits sum.splits)+
qed

lemma mkdirp_existing:
  "lookup n ks = Some (Dir es) \<Longrightarrow> mkdirp n ks = Inr n"
proof (induction ks arbitrary: n)
  case Nil
  then show ?case by simp
next
  case (Cons k ks)
  then show ?case
    by (cases n) (auto simp: update_triv split: option.splits sum.splits)
qed

lemma mkdirp_create:
  "lookup n ks = Some (Dir es) \<Longrightarrow> map_of es k = None
   \<Longrightarrow> \<exists>n'. mkdirp n (ks @ [k]) = Inr n' \<and> lookup n' (ks @ [k]) = Some (Dir [])"
proof (induction ks arbitrary: n)
  case Nil
  then show ?case by (simp add: update_conv')
next
  case (Cons k0 ks)
  then show ?case
    by (cases n) (fastforce simp: update_conv' split: option.splits sum.splits)+
qed

lemma stat_entry:
  assumes "lookup vol (steps p) = Some (Dir es)" and "valid_name k" and "map_of es k = Some c"
  shows "statSync vol (entry_path p k)
         = Inr (case c of File b \<Rightarrow> \<lparr>isDirectory = False, st_size = length b\<rparr>
                        | Dir ds \<Rightarrow> \<lparr>isDirectory = True, st_size = 0\<rparr>)"
  using assms
  by (simp add: statSync_def steps_entry_path lookup_append split: node.splits)

section \<open>The initial file system\<close>

lemma createMemoryFileSystem_value:
  "createMemoryFileSystem =
     Inr (MemfsDirectoryHandle ''/'',
          Dir [(''sandbox'',
                Dir [(''input.txt'', File (utf8_encode (''hello from input.txt'' @ [CHR 0x0A]))),
                     (''input2.txt'', File (utf8_encode (''hello from input2.txt'' @ [CHR 0x0A]))),
                     (''notadir'', File [])]),
               (''tmp'', Dir [])])"
  by (simp add: createMemoryFileSystem_def mkdirSync_def writeFileSync_def new_Volume_def
      steps_sandbox steps_tmp steps_input steps_input2 steps_notadir utf8_encode_def)

text \<open>
  C8. \<^verbatim>\<open>createMemoryFileSystem()\<close> returns the root handle of a volume in which
  \<open>/sandbox\<close> and \<open>/tmp\<close> are directories and \<open>/sandbox\<close> holds, in this order,
  \<open>input.txt\<close> with exactly the bytes of \<open>hello from input.txt\<close> and a newline,
  \<open>input2.txt\<close> with exactly the bytes of \<open>hello from input2.txt\<close> and a newline, and
  the empty file \<open>notadir\<close>.
\<close>

theorem initial_file_system:
  "\<exists>vol. createMemoryFileSystem = Inr (MemfsDirectoryHandle ''/'', vol)
     \<and> statSync vol ''/sandbox'' = Inr \<lparr>isDirectory = True, st_size = 0\<rparr>
     \<and> statSync vol ''/tmp'' = Inr \<lparr>isDirectory = True, st_size = 0\<rparr>
     \<and> readdirSync vol ''/sandbox'' = Inr [''input.txt'', ''input2.txt'', ''notadir'']
     \<and> readFileSync vol ''/sandbox/input.txt''
         = Inr [0x68, 0x65, 0x6C, 0x6C, 0x6F, 0x20, 0x66, 0x72, 0x6F, 0x6D, 0x20,
                0x69, 0x6E, 0x70, 0x75, 0x74, 0x2E, 0x74, 0x78, 0x74, 0x0A]
     \<and> readFileSync vol ''/sandbox/input.txt''
         = Inr (utf8_encode (''hello from input.txt'' @ [CHR 0x0A]))
     \<and> readFileSync vol ''/sandbox/input2.txt''
         = Inr (utf8_encode (''hello from input2.txt'' @ [CHR 0x0A]))
     \<and> readFileSync vol ''/sandbox/notadir'' = Inr []"
  unfolding createMemoryFileSystem_value
  by (simp add: statSync_def readdirSync_def readFileSync_def
      steps_sandbox steps_tmp steps_input steps_input2 steps_notadir utf8_encode_def)

section \<open>Directory handles\<close>

text \<open>
  C5. When \<open>name\<close> refers to a non-empty directory, \<^verbatim>\<open>removeEntry(name)\<close> without
  \<open>recursive\<close> raises the \<^verbatim>\<open>DOMException\<close> named \<open>InvalidModificationError\<close> (the
  \<open>ENOTEMPTY\<close> of the volume) and leaves the volume, hence the directory and its entries,
  as it was; when nothing is at \<open>name\<close>, \<^verbatim>\<open>removeEntry\<close> raises \<open>NotFoundError\<close>,
  with or without \<open>recursive\<close>.
\<close>

theorem remove_nonempty_directory:
  "(readdirSync vol (entry_path this_path name) = Inr es \<and> es \<noteq> [] \<longrightarrow>
      removeEntry vol this_path name False
        = (Inl (DOMException ''Directory not empty'' ''InvalidModificationError''), vol))
   \<and> (statSync vol (entry_path this_path name) = Inl ENOENT \<longrightarrow>
      removeEntry vol this_path name recursive
        = (Inl (DOMException ''Entry not found'' ''NotFoundError''), vol))"
  by (auto simp: readdirSync_def statSync_def removeEntry_def rmdirSync_def
      removeEntry_catch_def Let_def split: option.splits node.splits)

theorem remove_nonempty_directory_witness:
  "removeEntry (Dir [(''sandbox'', Dir [(''d'', Dir [(''x'', File [])])])]) ''/sandbox'' ''d'' False
     = (Inl (DOMException ''Directory not empty'' ''InvalidModificationError''),
        Dir [(''sandbox'', Dir [(''d'', Dir [(''x'', File [])])])])
   \<and> removeEntry (Dir [(''sandbox'', Dir [(''d'', Dir [(''x'', File [])])])]) ''/sandbox'' ''nowhere'' True
     = (Inl (DOMException ''Entry not found'' ''NotFoundError''),
        Dir [(''sandbox'', Dir [(''d'', Dir [(''x'', File [])])])])"
  using remove_nonempty_directory
    [of "Dir [(''sandbox'', Dir [(''d'', Dir [(''x'', File [])])])]" "''/sandbox''" "''d''" "[''x'']"]
    remove_nonempty_directory
    [of "Dir [(''sandbox'', Dir [(''d'', Dir [(''x'', File [])])])]" "''/sandbox''" "''nowhere''" _ True]
  by (simp add: readdirSync_def statSync_def entry_path_def steps_sandbox_d steps_sandbox_nowhere)

lemma getFileHandle_creates:
  assumes "statSync vol (entry_path this_path name) = Inl ENOENT"
      and "lookup vol (butlast (steps (entry_path this_path name))) = Some (Dir es)"
  shows "\<exists>vol'. getFileHandle vol this_path name True
                  = (Inr (MemfsFileHandle (entry_path this_path name)), vol')
               \<and> readFileSync vol' (entry_path this_path name) = Inr []"
proof -
  define ks where "ks = steps (entry_path this_path name)"
  have none: "lookup vol ks = None"
    using assms(1) by (auto simp: statSync_def ks_def split: option.splits node.splits)
  from lookup_missing_entry [OF none] assms(2)
  have ne: "ks \<noteq> []" and free: "map_of es (last ks) = None" by (simp_all add: ks_def)
  from write_node_create [OF _ free, of vol "butlast ks" "[]"] assms(2) ne
  obtain vol' where w: "write_node vol ks [] = Inr vol'" by (auto simp: ks_def)
  then have "lookup vol' ks = Some (File [])" by (rule write_node_lookup)
  with w show ?thesis
    using assms(1)
    by (simp add: getFileHandle_def writeFileSync_def readFileSync_def utf8_encode_def
        ks_def [symmetric] Let_def)
qed

lemma getDirectoryHandle_creates:
  assumes "statSync vol (entry_path this_path name) = Inl ENOENT"
      and "lookup vol (butlast (steps (entry_path this_path name))) = Some (Dir es)"
  shows "\<exists>vol'. getDirectoryHandle vol this_path name True
                  = (Inr (MemfsDirectoryHandle (entry_path this_path name)), vol')
               \<and> readdirSync vol' (entry_path this_path name) = Inr []"
proof -
  define ks where "ks = steps (entry_path this_path name)"
  have none: "lookup vol ks = None"
    using assms(1) by (auto simp: statSync_def ks_def split: option.splits node.splits)
  from lookup_missing_entry [OF none] assms(2)
  have ne: "ks \<noteq> []" and free: "map_of es (last ks) = None" by (simp_all add: ks_def)
  from mkdirp_create [OF _ free, of vol "butlast ks"] assms(2) ne
  obtain vol' where w: "mkdirp vol ks = Inr vol'" "lookup vol' ks = Some (Dir [])"
    by (auto simp: ks_def)
  then show ?thesis
    using assms(1)
    by (simp add: getDirectoryHandle_def mkdirSync_def readdirSync_def
        ks_def [symmetric] Let_def)
qed

text \<open>
  What the two lookups do on a volume in which the directory of the new entry is there.
  When the target is a regular file, \<^verbatim>\<open>getDirectoryHandle\<close> raises
  \<open>TypeMismatchError\<close> whatever \<open>create\<close> is, and \<^verbatim>\<open>getFileHandle\<close> opens the file
  without an error and without touching the volume; when the target is a directory,
  \<^verbatim>\<open>getFileHandle\<close> raises \<open>TypeMismatchError\<close> whatever \<open>create\<close> is. When the
  target does not exist, both raise \<open>NotFoundError\<close> without \<open>create\<close>; with
  \<open>create\<close> the one creates an empty file and the other an empty directory.
\<close>

lemma handle_kind_and_create:
  "(statSync vol (entry_path this_path name) = Inr st \<and> \<not> isDirectory st \<longrightarrow>
      getDirectoryHandle vol this_path name create
        = (Inl (DOMException ''Path is not a directory'' ''TypeMismatchError''), vol)
    \<and> getFileHandle vol this_path name create
        = (Inr (MemfsFileHandle (entry_path this_path name)), vol))
   \<and> (statSync vol (entry_path this_path name) = Inr st \<and> isDirectory st \<longrightarrow>
      getFileHandle vol this_path name create
        = (Inl (DOMException ''Path is a directory'' ''TypeMismatchError''), vol))
   \<and> (statSync vol (entry_path this_path name) = Inl ENOENT \<longrightarrow>
      getFileHandle vol this_path name False
        = (Inl (DOMException ''File not found'' ''NotFoundError''), vol)
    \<and> getDirectoryHandle vol this_path name False
        = (Inl (DOMException ''Directory not found'' ''NotFoundError''), vol))
   \<and> (statSync vol (entry_path this_path name) = Inl ENOENT
       \<and> lookup vol (butlast (steps (entry_path this_path name))) = Some (Dir es) \<longrightarrow>
      (\<exists>vol'. getFileHandle vol this_path name True
                 = (Inr (MemfsFileHandle (entry_path this_path name)), vol')
              \<and> readFileSync vol' (entry_path this_path name) = Inr [])
    \<and> (\<exists>vol'. getDirectoryHandle vol this_path name True
                 = (Inr (MemfsDirectoryHandle (entry_path this_path name)), vol')
              \<and> readdirSync vol' (entry_path this_path name) = Inr []))"
proof (intro conjI impI)
  assume "statSync vol (entry_path this_path name) = Inr st \<and> \<not> isDirectory st"
  then show "getDirectoryHandle vol this_path name create
        = (Inl (DOMException ''Path is not a directory'' ''TypeMismatchError''), vol)"
    and "getFileHandle vol this_path name create
        = (Inr (MemfsFileHandle (entry_path this_path name)), vol)"
    by (simp_all add: getDirectoryHandle_def getFileHandle_def Let_def)
next
  assume "statSync vol (entry_path this_path name) = Inr st \<and> isDirectory st"
  then show "getFileHandle vol this_path name create
        = (Inl (DOMException ''Path is a directory'' ''TypeMismatchError''), vol)"
    by (simp add: getFileHandle_def Let_def)
next
  assume "statSync vol (entry_path this_path name) = Inl ENOENT"
  then show "getFileHandle vol this_path name False
        = (Inl (DOMException ''File not found'' ''NotFoundError''), vol)"
    and "getDirectoryHandle vol this_path name False
        = (Inl (DOMException ''Directory not found'' ''NotFoundError''), vol)"
    by (simp_all add: getDirectoryHandle_def getFileHandle_def Let_def)
next
  assume a: "statSync vol (entry_path this_path name) = Inl ENOENT
       \<and> lookup vol (butlast (steps (entry_path this_path name))) = Some (Dir es)"
  then show "\<exists>vol'. getFileHandle vol this_path name True
                 = (Inr (MemfsFileHandle (entry_path this_path name)), vol')
              \<and> readFileSync vol' (entry_path this_path name) = Inr []"
    using getFileHandle_creates by blast
  from a show "\<exists>vol'. getDirectoryHandle vol this_path name True
                 = (Inr (MemfsDirectoryHandle (entry_path this_path name)), vol')
              \<and> readdirSync vol' (entry_path this_path name) = Inr []"
    using getDirectoryHandle_creates by blast
qed

text \<open>
  C6. A directory handle outlives its directory: on the handle of \<open>/sandbox\<close>,
  \<^verbatim>\<open>getDirectoryHandle('d', {create: true})\<close> returns the handle of \<open>/sandbox/d\<close>, and
  \<^verbatim>\<open>removeEntry('d')\<close> removes the directory. On that handle the target \<open>x\<close> does not
  exist, and \<^verbatim>\<open>getFileHandle('x', {create: true})\<close> neither creates the file nor raises
  \<open>NotFoundError\<close>: the \<open>ENOENT\<close> of \<^verbatim>\<open>writeFileSync\<close>, raised inside the
  \<^verbatim>\<open>catch\<close> clause that turns \<open>ENOENT\<close> into a creation or a \<open>NotFoundError\<close>,
  reaches the caller as it is, and the volume is unchanged. On the same handle and the
  same name, \<^verbatim>\<open>getDirectoryHandle\<close> with \<open>create\<close> creates \<open>/sandbox/d/x\<close>, and
  \<^verbatim>\<open>getFileHandle\<close> without \<open>create\<close> raises \<open>NotFoundError\<close>.
\<close>

theorem getFileHandle_create_on_removed_directory:
  "getDirectoryHandle (Dir [(''sandbox'', Dir [])]) ''/sandbox'' ''d'' True
     = (Inr (MemfsDirectoryHandle ''/sandbox/d''), Dir [(''sandbox'', Dir [(''d'', Dir [])])])
   \<and> removeEntry (Dir [(''sandbox'', Dir [(''d'', Dir [])])]) ''/sandbox'' ''d'' False
     = (Inr (), Dir [(''sandbox'', Dir [])])
   \<and> statSync (Dir [(''sandbox'', Dir [])]) (entry_path ''/sandbox/d'' ''x'') = Inl ENOENT
   \<and> getFileHandle (Dir [(''sandbox'', Dir [])]) ''/sandbox/d'' ''x'' True
     = (Inl (VolumeError ENOENT), Dir [(''sandbox'', Dir [])])
   \<and> getFileHandle (Dir [(''sandbox'', Dir [])]) ''/sandbox/d'' ''x'' False
     = (Inl (DOMException ''File not found'' ''NotFoundError''), Dir [(''sandbox'', Dir [])])
   \<and> getDirectoryHandle (Dir [(''sandbox'', Dir [])]) ''/sandbox/d'' ''x'' True
     = (Inr (MemfsDirectoryHandle ''/sandbox/d/x''),
        Dir [(''sandbox'', Dir [(''d'', Dir [(''x'', Dir [])])])])"
  by (simp add: getDirectoryHandle_def removeEntry_def getFileHandle_def statSync_def
      mkdirSync_def rmdirSync_def writeFileSync_def entry_path_def utf8_encode_def Let_def
      steps_sandbox_d steps_sandbox_d_x)

text \<open>
  In a directory whose entries have valid names, \<^verbatim>\<open>values\<close> yields one handle for each
  name \<^verbatim>\<open>keys\<close> yields, in the same order and of the kind of the node.
\<close>

lemma values_loop_listing:
  assumes "lookup vol (steps p) = Some (Dir es)"
      and "\<forall>k\<in>set ks. valid_name k \<and> map_of es k \<noteq> None"
  shows "snd (values_loop vol p ks) = None
       \<and> map entry_name (fst (values_loop vol p ks)) = ks
       \<and> map kind (fst (values_loop vol p ks))
           = map (\<lambda>k. case map_of es k of Some (Dir ds) \<Rightarrow> ''directory'' | _ \<Rightarrow> ''file'') ks"
  using assms(2)
proof (induction ks)
  case Nil
  then show ?case by simp
next
  case (Cons k ks)
  then obtain c where c: "map_of es k = Some c" and v: "valid_name k" by auto
  note st = stat_entry [OF assms(1) v c]
  from Cons have IH: "snd (values_loop vol p ks) = None
       \<and> map entry_name (fst (values_loop vol p ks)) = ks
       \<and> map kind (fst (values_loop vol p ks))
           = map (\<lambda>k. case map_of es k of Some (Dir ds) \<Rightarrow> ''directory'' | _ \<Rightarrow> ''file'') ks"
    by simp
  show ?case
    using IH c
    by (cases c) (simp_all add: st Let_def split_beta handle_name_entry_path [OF v])
qed

lemma values_match_keys:
  assumes "lookup vol (steps p) = Some (Dir es)" and "\<forall>k\<in>set (map fst es). valid_name k"
  shows "keys vol p = (map fst es, None)
       \<and> snd (values_of vol p) = None
       \<and> map entry_name (fst (values_of vol p)) = map fst es
       \<and> map kind (fst (values_of vol p))
           = map (\<lambda>k. case map_of es k of Some (Dir ds) \<Rightarrow> ''directory'' | _ \<Rightarrow> ''file'')
               (map fst es)"
proof -
  have "\<forall>k\<in>set (map fst es). valid_name k \<and> map_of es k \<noteq> None"
    using assms(2) by (auto simp: map_of_eq_None_iff)
  from values_loop_listing [OF assms(1) this] show ?thesis
    using assms(1) by (simp add: keys_def values_of_def readdirSync_def)
qed

lemma handle_exec_non_mutating:
  "non_mutating c \<Longrightarrow> snd (handle_exec vol c) = vol"
  by (cases c) simp_all

lemma handle_run_non_mutating:
  "\<forall>c\<in>set cs. non_mutating c \<Longrightarrow>
   handle_run vol cs = (map (\<lambda>c. fst (handle_exec vol c)) cs, vol)"
proof (induction cs)
  case Nil
  then show ?case by simp
next
  case (Cons c cs)
  then have "snd (handle_exec vol c) = vol"
    by (simp add: handle_exec_non_mutating)
  with Cons show ?case
    by (simp add: split_beta)
qed

text \<open>
  C7. The calls \<^verbatim>\<open>keys\<close>, \<^verbatim>\<open>values\<close> and \<^verbatim>\<open>getFile\<close> leave the volume as it is,
  and what each returns is a function of the volume and the path alone. So a sequence of
  such calls returns, call by call, what each returns on the initial volume; running it
  twice gives the same responses twice; and an enumeration or a \<^verbatim>\<open>getFile\<close> repeated
  after any number of such calls returns the same names in the same order, the same
  handles and kinds, and the same bytes.
\<close>

theorem reads_are_stable:
  assumes "\<forall>c\<in>set cs. non_mutating c"
  shows "handle_run vol cs = (map (\<lambda>c. fst (handle_exec vol c)) cs, vol)
       \<and> handle_run vol (cs @ cs)
           = (fst (handle_run vol cs) @ fst (handle_run vol cs), vol)
       \<and> handle_run vol (Keys p # cs @ [Keys p])
           = (KeysResult (keys vol p) # fst (handle_run vol cs) @ [KeysResult (keys vol p)], vol)
       \<and> handle_run vol (Values p # cs @ [Values p])
           = (ValuesResult (values_of vol p) # fst (handle_run vol cs)
                @ [ValuesResult (values_of vol p)], vol)
       \<and> handle_run vol (GetFile q # cs @ [GetFile q])
           = (FileResult (getFile vol q) # fst (handle_run vol cs)
                @ [FileResult (getFile vol q)], vol)"
proof -
  have "\<forall>c\<in>set (cs @ cs). non_mutating c"
    and "\<forall>c\<in>set (Keys p # cs @ [Keys p]). non_mutating c"
    and "\<forall>c\<in>set (Values p # cs @ [Values p]). non_mutating c"
    and "\<forall>c\<in>set (GetFile q # cs @ [GetFile q]). non_mutating c"
    using assms by auto
  then show ?thesis
    using assms by (simp add: handle_run_non_mutating del: handle_run.simps)
qed

theorem reads_are_stable_witness:
  "handle_run (Dir [(''sandbox'', Dir [(''d1'', Dir []), (''f1'', File [1])])])
      [Keys ''/sandbox'', Values ''/sandbox'', GetFile ''/sandbox/f1'', Keys ''/sandbox'']
   = ([KeysResult (keys (Dir [(''sandbox'', Dir [(''d1'', Dir []), (''f1'', File [1])])]) ''/sandbox''),
       ValuesResult (values_of (Dir [(''sandbox'', Dir [(''d1'', Dir []), (''f1'', File [1])])]) ''/sandbox''),
       FileResult (getFile (Dir [(''sandbox'', Dir [(''d1'', Dir []), (''f1'', File [1])])]) ''/sandbox/f1''),
       KeysResult (keys (Dir [(''sandbox'', Dir [(''d1'', Dir []), (''f1'', File [1])])]) ''/sandbox'')],
      Dir [(''sandbox'', Dir [(''d1'', Dir []), (''f1'', File [1])])])"
proof -
  have h: "\<forall>c\<in>set [Values ''/sandbox'', GetFile ''/sandbox/f1'']. non_mutating c"
    by simp
  show ?thesis
    using reads_are_stable [OF h, of "Dir [(''sandbox'', Dir [(''d1'', Dir []), (''f1'', File [1])])]" "''/sandbox''"]
    by (simp del: handle_run.simps)
qed

section \<open>The writable stream\<close>

text \<open>
  C2, as amended. On an open stream with a buffer of length \<open>n\<close>, take a write of the
  bytes \<open>d\<close> at an integer position \<open>q \<ge> 0\<close> (the explicit position, or the cursor when
  none is supplied) such that \<open>q + length d\<close> is at most \<open>n\<close>, or at most the greatest
  length the engine gives a typed array. It succeeds; the buffer then has length
  \<open>max n (q + length d)\<close>, holds \<open>d\<close> at \<open>[q, q + length d)\<close>, its old bytes elsewhere
  below \<open>n\<close> and zero in the gap \<open>[n, q)\<close>; the cursor is \<open>q + length d\<close>. On every
  open stream, a seek to a position at or beyond the length of the buffer succeeds and
  changes the cursor only.
\<close>

theorem write_at_nonneg_position:
  assumes "\<not> closed s"
  shows "let q = writePosition s arg; d = writeData arg; n = length (data s);
             s' = snd (write_stream limit s arg)
         in (0 \<le> q \<and> q + int (length d) \<le> max (int n) (max_byte_length limit) \<longrightarrow>
               fst (write_stream limit s arg) = Inr ()
             \<and> length (data s') = max n (nat q + length d)
             \<and> (\<forall>i < length (data s').
                   data s' ! i = (if nat q \<le> i \<and> i < nat q + length d then d ! (i - nat q)
                                  else if i < n then data s ! i else 0))
             \<and> position s' = q + int (length d))
          \<and> writePosition s (Chunk d) = position s
          \<and> writePosition s (WriteParams None d) = position s
          \<and> (\<forall>x. writePosition s (WriteParams (Some x) d) = x)
          \<and> (\<forall>p \<ge> int n. seek s p = (Inr (), s\<lparr>position := p\<rparr>))"
proof -
  have sk: "\<forall>p. seek s p = (Inr (), s\<lparr>position := p\<rparr>)"
    using assms by (simp add: seek_def)
  have wr: "fst (write_stream limit s arg) = Inr ()
      \<and> length (data (snd (write_stream limit s arg)))
          = max (length (data s)) (nat (writePosition s arg) + length (writeData arg))
      \<and> (\<forall>i < length (data (snd (write_stream limit s arg))).
            data (snd (write_stream limit s arg)) ! i
            = (if nat (writePosition s arg) \<le> i
                  \<and> i < nat (writePosition s arg) + length (writeData arg)
               then writeData arg ! (i - nat (writePosition s arg))
               else if i < length (data s) then data s ! i else 0))
      \<and> position (snd (write_stream limit s arg))
          = writePosition s arg + int (length (writeData arg))"
    if "0 \<le> writePosition s arg"
      and "writePosition s arg + int (length (writeData arg))
           \<le> max (int (length (data s))) (max_byte_length limit)"
    unfolding write_nonneg [OF assms that]
    by (simp add: written_length written_nth del: length_append nth_append)
  show ?thesis
    unfolding Let_def using sk wr by (simp add: writePosition_def)
qed

theorem write_at_nonneg_position_witness:
  "\<not> closed \<lparr>path = ''/sandbox/f'', data = [1], position = 0, closed = False\<rparr>
   \<and> fst (write_stream 4294967295
          \<lparr>path = ''/sandbox/f'', data = [1], position = 0, closed = False\<rparr>
          (WriteParams (Some 3) [7])) = Inr ()
   \<and> length (data (snd (write_stream 4294967295
          \<lparr>path = ''/sandbox/f'', data = [1], position = 0, closed = False\<rparr>
          (WriteParams (Some 3) [7])))) = 4
   \<and> data (snd (write_stream 4294967295
          \<lparr>path = ''/sandbox/f'', data = [1], position = 0, closed = False\<rparr>
          (WriteParams (Some 3) [7]))) ! 2 = 0
   \<and> position (snd (write_stream 4294967295
          \<lparr>path = ''/sandbox/f'', data = [1], position = 0, closed = False\<rparr>
          (WriteParams (Some 3) [7]))) = 4
   \<and> seek \<lparr>path = ''/sandbox/f'', data = [1], position = 0, closed = False\<rparr> 5
     = (Inr (), \<lparr>path = ''/sandbox/f'', data = [1], position = 5, closed = False\<rparr>)"
  using write_at_nonneg_position
    [of "\<lparr>path = ''/sandbox/f'', data = [1], position = 0, closed = False\<rparr>"
        "WriteParams (Some 3) [7]" 4294967295]
  by (simp add: writePosition_def writeData_def max_byte_length_def Let_def)

text \<open>
  A write at a negative position raises the \<^verbatim>\<open>RangeError\<close> of \<^verbatim>\<open>Uint8Array.set\<close>,
  with an explicit position as well as after a seek to a negative cursor. After a seek to
  \<open>2 ^ 53 - 1\<close> a write of one byte needs \<open>2 ^ 53\<close> bytes, which
  \<^verbatim>\<open>new Uint8Array\<close> refuses on every engine. In each case the stream is left as it
  was.
\<close>

theorem write_negative_position_counterexample:
  "write_stream 9007199254740991
      \<lparr>path = ''/sandbox/f'', data = [], position = 0, closed = False\<rparr>
      (WriteParams (Some (- 1)) [7])
   = (Inl RangeError, \<lparr>path = ''/sandbox/f'', data = [], position = 0, closed = False\<rparr>)
   \<and> seek \<lparr>path = ''/sandbox/f'', data = [], position = 0, closed = False\<rparr> (- 1)
   = (Inr (), \<lparr>path = ''/sandbox/f'', data = [], position = - 1, closed = False\<rparr>)
   \<and> write_stream 9007199254740991
      \<lparr>path = ''/sandbox/f'', data = [], position = - 1, closed = False\<rparr> (Chunk [7])
   = (Inl RangeError, \<lparr>path = ''/sandbox/f'', data = [], position = - 1, closed = False\<rparr>)
   \<and> seek \<lparr>path = ''/sandbox/f'', data = [], position = 0, closed = False\<rparr>
      9007199254740991
   = (Inr (),
      \<lparr>path = ''/sandbox/f'', data = [], position = 9007199254740991, closed = False\<rparr>)
   \<and> write_stream 9007199254740991
      \<lparr>path = ''/sandbox/f'', data = [], position = 9007199254740991, closed = False\<rparr>
      (Chunk [7])
   = (Inl RangeError,
      \<lparr>path = ''/sandbox/f'', data = [], position = 9007199254740991, closed = False\<rparr>)"
  by (simp add: write_stream_def seek_def writePosition_def writeData_def ta_set_def
      new_Uint8Array_def max_byte_length_def Let_def)

text \<open>
  C3. Once \<^verbatim>\<open>close\<close> has run on a stream the stream is closed, whatever the volume
  answered; on a closed stream \<^verbatim>\<open>write\<close>, \<^verbatim>\<open>seek\<close> and \<^verbatim>\<open>truncate\<close> raise
  \<^verbatim>\<open>Error('Stream is closed')\<close> and leave the stream as it is, and \<^verbatim>\<open>close\<close> returns
  normally with the volume and the buffer untouched.
\<close>

theorem closed_stream_rejects:
  "closed (snd (snd (close vol0 s0)))
   \<and> (closed s \<longrightarrow>
        write_stream limit s arg = (Inl (Error ''Stream is closed''), s)
      \<and> seek s p = (Inl (Error ''Stream is closed''), s)
      \<and> truncate limit s sz = (Inl (Error ''Stream is closed''), s)
      \<and> close vol s = (Inr (), vol, s))"
  by (simp add: close_def write_stream_def seek_def truncate_def Let_def split: sum.splits)

theorem closed_stream_rejects_witness:
  "write_stream 4294967295
      \<lparr>path = ''/sandbox/f'', data = [1, 2], position = 2, closed = True\<rparr> (Chunk [3])
     = (Inl (Error ''Stream is closed''),
        \<lparr>path = ''/sandbox/f'', data = [1, 2], position = 2, closed = True\<rparr>)
   \<and> close (Dir []) \<lparr>path = ''/sandbox/f'', data = [1, 2], position = 2, closed = True\<rparr>
     = (Inr (), Dir [], \<lparr>path = ''/sandbox/f'', data = [1, 2], position = 2, closed = True\<rparr>)"
  using closed_stream_rejects
    [where s = "\<lparr>path = ''/sandbox/f'', data = [1, 2], position = 2, closed = True\<rparr>"
       and arg = "Chunk [3]" and vol = "Dir []" and limit = 4294967295]
  by simp

text \<open>
  C9, as amended. On an open stream with a buffer of length \<open>n\<close> and cursor \<open>c\<close>, take
  \<^verbatim>\<open>truncate(size)\<close> with an integer \<open>size \<ge> 0\<close> that is at most \<open>n\<close>, or at most the
  greatest length the engine gives a typed array. It leaves a buffer of exactly \<open>size\<close>
  bytes that agrees with the old one on the first \<open>min n size\<close> bytes and is zero on
  \<open>[n, size)\<close>; the cursor becomes \<open>min c size\<close> and does not exceed the length of the
  buffer.
\<close>

theorem truncate_to_nonneg_size:
  assumes "\<not> closed s" and "0 \<le> sz"
      and "sz \<le> max (int (length (data s))) (max_byte_length limit)"
  shows "let n = length (data s); s' = snd (truncate limit s sz)
         in fst (truncate limit s sz) = Inr ()
          \<and> length (data s') = nat sz
          \<and> take (min n (nat sz)) (data s') = take (min n (nat sz)) (data s)
          \<and> (\<forall>i. n \<le> i \<and> i < nat sz \<longrightarrow> data s' ! i = 0)
          \<and> position s' = min (position s) sz
          \<and> position s' \<le> int (length (data s'))"
  unfolding Let_def truncate_nonneg [OF assms]
  using assms(2) by (auto simp: min_def nth_append)

theorem truncate_to_nonneg_size_witness:
  "fst (truncate 4294967295
         \<lparr>path = ''/sandbox/f'', data = [1, 2, 3], position = 3, closed = False\<rparr> 5)
     = Inr ()
   \<and> length (data (snd (truncate 4294967295
         \<lparr>path = ''/sandbox/f'', data = [1, 2, 3], position = 3, closed = False\<rparr> 5))) = 5
   \<and> position (snd (truncate 4294967295
         \<lparr>path = ''/sandbox/f'', data = [1, 2, 3], position = 3, closed = False\<rparr> 5)) = 3
   \<and> length (data (snd (truncate 4294967295
         \<lparr>path = ''/sandbox/f'', data = [1, 2, 3], position = 3, closed = False\<rparr> 2))) = 2
   \<and> position (snd (truncate 4294967295
         \<lparr>path = ''/sandbox/f'', data = [1, 2, 3], position = 3, closed = False\<rparr> 2)) = 2"
  using
    truncate_to_nonneg_size
      [of "\<lparr>path = ''/sandbox/f'', data = [1, 2, 3], position = 3, closed = False\<rparr>" 5
          4294967295]
    truncate_to_nonneg_size
      [of "\<lparr>path = ''/sandbox/f'', data = [1, 2, 3], position = 3, closed = False\<rparr>" 2
          4294967295]
  by (simp add: max_byte_length_def Let_def)

text \<open>
  With a negative size, \<^verbatim>\<open>slice(0, size)\<close> counts from the end of the buffer:
  \<^verbatim>\<open>truncate(-1)\<close> drops the last byte, and the cursor becomes \<open>-1\<close>. With the size
  \<open>2 ^ 53\<close>, \<^verbatim>\<open>new Uint8Array\<close> raises a \<^verbatim>\<open>RangeError\<close> on every engine, and the
  buffer stays as it was.
\<close>

theorem truncate_negative_size_counterexample:
  "truncate 9007199254740991
      \<lparr>path = ''/sandbox/f'', data = [1, 2, 3], position = 3, closed = False\<rparr> (- 1)
     = (Inr (), \<lparr>path = ''/sandbox/f'', data = [1, 2], position = - 1, closed = False\<rparr>)
   \<and> int (length (data (snd (truncate 9007199254740991
         \<lparr>path = ''/sandbox/f'', data = [1, 2, 3], position = 3, closed = False\<rparr> (- 1)))))
       \<noteq> - 1
   \<and> truncate 9007199254740991
      \<lparr>path = ''/sandbox/f'', data = [1, 2, 3], position = 3, closed = False\<rparr>
      9007199254740992
     = (Inl RangeError,
        \<lparr>path = ''/sandbox/f'', data = [1, 2, 3], position = 3, closed = False\<rparr>)"
  by (simp add: truncate_def ta_slice0_def new_Uint8Array_def max_byte_length_def Let_def)

text \<open>
  C10. \<^verbatim>\<open>seek(p)\<close> raises exactly when the stream is closed. On an open stream it
  succeeds for every \<open>p\<close>, negative or far beyond the buffer, sets the cursor to \<open>p\<close> and
  changes nothing else.
\<close>

theorem seek_open_succeeds:
  "((\<exists>e. fst (seek s p) = Inl e) \<longleftrightarrow> closed s)
   \<and> (\<not> closed s \<longrightarrow> seek s p = (Inr (), s\<lparr>position := p\<rparr>))"
  by (simp add: seek_def)

theorem seek_open_succeeds_witness:
  "seek \<lparr>path = ''/sandbox/f'', data = [1, 2], position = 0, closed = False\<rparr> (- 5)
     = (Inr (), \<lparr>path = ''/sandbox/f'', data = [1, 2], position = - 5, closed = False\<rparr>)
   \<and> seek \<lparr>path = ''/sandbox/f'', data = [1, 2], position = 0, closed = False\<rparr> 9007199254740991
     = (Inr (), \<lparr>path = ''/sandbox/f'', data = [1, 2], position = 9007199254740991, closed = False\<rparr>)"
  using seek_open_succeeds [of "\<lparr>path = ''/sandbox/f'', data = [1, 2], position = 0, closed = False\<rparr>" "- 5"]
    seek_open_succeeds [of "\<lparr>path = ''/sandbox/f'', data = [1, 2], position = 0, closed = False\<rparr>" 9007199254740991]
  by simp

section \<open>Publishing on close\<close>

lemma close_publishes:
  assumes "valid_name name"
      and "path s = entry_path this_path name"
      and "\<not> closed s"
      and "lookup vol (steps (path s)) = Some (File c)"
  shows "\<exists>vol'. close vol s = (Inr (), vol', s\<lparr>closed := True\<rparr>)
               \<and> readFileSync vol' (path s) = Inr (data s)"
proof -
  have st: "steps (path s) = steps this_path @ [name]"
    using assms(1,2) by (simp add: steps_entry_path)
  obtain es where parent: "lookup vol (steps this_path) = Some (Dir es)"
    using parent_of_file assms(4) unfolding st by blast
  have dir: "substring (path s) 0 (lastIndexOf (path s) (CHR ''/''))
             = (if this_path = ''/'' then [] else this_path)"
    using assms(1,2) by (simp add: dir_of_entry_path)
  have made: "mkdirSync vol this_path True = Inr vol"
    using parent by (simp add: mkdirSync_def mkdirp_existing)
  obtain vol' where w: "write_node vol (steps (path s)) (data s) = Inr vol'"
    using write_node_existing [OF assms(4)] by blast
  then have "lookup vol' (steps (path s)) = Some (File (data s))"
    by (rule write_node_lookup)
  then show ?thesis
    using assms(3) w dir made
    by (simp add: close_def Let_def writeFileSync_def readFileSync_def)
qed








lemma keep_existing_appends:
  assumes "valid_name name" and "readFileSync vol (entry_path this_path name) = Inr c"
  shows "\<exists>s0.
           MemfsWritableFileStream vol (entry_path this_path name) True = Inr s0
         \<and> data s0 = c \<and> position s0 = int (length c)
         \<and> seek s0 (int (length c)) = (Inr (), s0)
         \<and> (int (length c) + int (length b) \<le> max (int (length c)) (max_byte_length limit) \<longrightarrow>
             (\<exists>s1 vol'.
                 write_stream limit s0 (Chunk b) = (Inr (), s1)
               \<and> close vol s1 = (Inr (), vol', s1\<lparr>closed := True\<rparr>)
               \<and> readFileSync vol' (entry_path this_path name) = Inr (c @ b)))"
proof -
  define p where "p = entry_path this_path name"
  define s0 where "s0 = \<lparr>path = p, data = c, position = int (length c), closed = False\<rparr>"
  define s1 where "s1 = s0\<lparr>data := c @ b, position := int (length c) + int (length b)\<rparr>"
  have fl: "lookup vol (steps p) = Some (File c)"
    using assms(2) by (auto simp: readFileSync_def p_def split: option.splits node.splits)
  have c0: "MemfsWritableFileStream vol p True = Inr s0"
    using assms(2) by (simp add: MemfsWritableFileStream_def s0_def p_def Let_def)
  have sk: "seek s0 (int (length c)) = (Inr (), s0)"
    by (simp add: seek_def s0_def)
  have wr: "write_stream limit s0 (Chunk b) = (Inr (), s1)"
    if "int (length c) + int (length b) \<le> max (int (length c)) (max_byte_length limit)"
    using write_nonneg [of s0 "Chunk b" limit] that
    by (simp add: s0_def s1_def writePosition_def writeData_def)
  have "\<exists>vol'. close vol s1 = (Inr (), vol', s1\<lparr>closed := True\<rparr>)
               \<and> readFileSync vol' (path s1) = Inr (data s1)"
    using fl
    by (intro close_publishes [OF assms(1), where this_path = this_path and c = c])
       (simp_all add: s1_def s0_def p_def)
  then obtain vol' where cl: "close vol s1 = (Inr (), vol', s1\<lparr>closed := True\<rparr>)"
    and rd: "readFileSync vol' p = Inr (c @ b)"
    by (auto simp: s1_def s0_def)
  show ?thesis
    unfolding p_def [symmetric]
  proof (rule exI [of _ s0], intro conjI impI)
    show "MemfsWritableFileStream vol p True = Inr s0" by (rule c0)
    show "data s0 = c" and "position s0 = int (length c)" by (simp_all add: s0_def)
    show "seek s0 (int (length c)) = (Inr (), s0)" by (rule sk)
    assume "int (length c) + int (length b) \<le> max (int (length c)) (max_byte_length limit)"
    then have "write_stream limit s0 (Chunk b) = (Inr (), s1)" by (rule wr)
    with cl rd show "\<exists>s1 vol'.
                 write_stream limit s0 (Chunk b) = (Inr (), s1)
               \<and> close vol s1 = (Inr (), vol', s1\<lparr>closed := True\<rparr>)
               \<and> readFileSync vol' p = Inr (c @ b)"
      by blast
  qed
qed

lemma redirect_append_scenario:
  assumes "4 \<le> max_byte_length limit"
  shows "\<exists>root v0 h v1 v2 v3.
      createMemoryFileSystem = Inr (root, v0)
    \<and> getFileHandle v0 ''/sandbox'' ''out.txt'' True = (Inr h, v1)
    \<and> run_redirected limit v1 h ''>'' [utf8_encode (''a'' @ [CHR 0x0A])] = (Inr (), v2)
    \<and> getFileHandle v2 ''/sandbox'' ''out.txt'' True = (Inr h, v2)
    \<and> run_redirected limit v2 h ''>>'' [utf8_encode (''b'' @ [CHR 0x0A])] = (Inr (), v3)
    \<and> readFileSync v3 ''/sandbox/out.txt''
        = Inr (utf8_encode (''a'' @ [CHR 0x0A] @ ''b'' @ [CHR 0x0A]))
    \<and> map_sum id file_size (getFile v3 ''/sandbox/out.txt'') = Inr 4"
  unfolding createMemoryFileSystem_value
  using assms
  by (simp add: getFileHandle_def run_redirected_def redirectedStdout_def createWritable_def
      MemfsWritableFileStream_def getFile_def file_size_def seek_def write_stream_def close_def
      writePosition_def writeData_def ta_set_def new_Uint8Array_def
      statSync_def readFileSync_def writeFileSync_def mkdirSync_def entry_path_def
      utf8_encode_def Let_def steps_out steps_sandbox dir_out name_out)

text \<open>
  C4, as amended. For a file with content \<open>c\<close> at the path of a valid name, the stream
  constructed with \<open>keepExistingData\<close> starts with the buffer \<open>c\<close> and the cursor at its
  end (a seek to the end of the file changes nothing). When the bytes \<open>b\<close> are none, or
  \<open>c\<close> followed by \<open>b\<close> is no longer than the greatest typed array of the engine, the
  write of \<open>b\<close> succeeds, and after closing the file holds \<open>c\<close> followed by \<open>b\<close>. In
  the initial file system, on an engine whose typed arrays hold four bytes or more, a run
  redirected with \<^verbatim>\<open>>\<close> that writes \<open>a\<close> and a newline, followed by a run redirected
  with \<^verbatim>\<open>>>\<close> that writes \<open>b\<close> and a newline, leaves \<open>/sandbox/out.txt\<close> with the
  four bytes of both lines.
\<close>

theorem keep_existing_appends_on_close:
  "(valid_name name \<and> readFileSync vol (entry_path this_path name) = Inr c \<longrightarrow>
      (\<exists>s0.
           MemfsWritableFileStream vol (entry_path this_path name) True = Inr s0
         \<and> data s0 = c \<and> position s0 = int (length c)
         \<and> seek s0 (int (length c)) = (Inr (), s0)
         \<and> (int (length c) + int (length b) \<le> max (int (length c)) (max_byte_length limit) \<longrightarrow>
             (\<exists>s1 vol'.
                 write_stream limit s0 (Chunk b) = (Inr (), s1)
               \<and> close vol s1 = (Inr (), vol', s1\<lparr>closed := True\<rparr>)
               \<and> readFileSync vol' (entry_path this_path name) = Inr (c @ b)))))
   \<and> (4 \<le> max_byte_length limit \<longrightarrow>
      (\<exists>root v0 h v1 v2 v3.
          createMemoryFileSystem = Inr (root, v0)
        \<and> getFileHandle v0 ''/sandbox'' ''out.txt'' True = (Inr h, v1)
        \<and> run_redirected limit v1 h ''>'' [utf8_encode (''a'' @ [CHR 0x0A])] = (Inr (), v2)
        \<and> getFileHandle v2 ''/sandbox'' ''out.txt'' True = (Inr h, v2)
        \<and> run_redirected limit v2 h ''>>'' [utf8_encode (''b'' @ [CHR 0x0A])] = (Inr (), v3)
        \<and> readFileSync v3 ''/sandbox/out.txt''
            = Inr (utf8_encode (''a'' @ [CHR 0x0A] @ ''b'' @ [CHR 0x0A]))
        \<and> map_sum id file_size (getFile v3 ''/sandbox/out.txt'') = Inr 4))"
proof (intro conjI impI)
  assume "valid_name name \<and> readFileSync vol (entry_path this_path name) = Inr c"
  then have "valid_name name" and "readFileSync vol (entry_path this_path name) = Inr c"
    by simp_all
  then show "\<exists>s0.
           MemfsWritableFileStream vol (entry_path this_path name) True = Inr s0
         \<and> data s0 = c \<and> position s0 = int (length c)
         \<and> seek s0 (int (length c)) = (Inr (), s0)
         \<and> (int (length c) + int (length b) \<le> max (int (length c)) (max_byte_length limit) \<longrightarrow>
             (\<exists>s1 vol'.
                 write_stream limit s0 (Chunk b) = (Inr (), s1)
               \<and> close vol s1 = (Inr (), vol', s1\<lparr>closed := True\<rparr>)
               \<and> readFileSync vol' (entry_path this_path name) = Inr (c @ b)))"
    by (rule keep_existing_appends)
next
  assume "4 \<le> max_byte_length limit"
  then show "\<exists>root v0 h v1 v2 v3.
          createMemoryFileSystem = Inr (root, v0)
        \<and> getFileHandle v0 ''/sandbox'' ''out.txt'' True = (Inr h, v1)
        \<and> run_redirected limit v1 h ''>'' [utf8_encode (''a'' @ [CHR 0x0A])] = (Inr (), v2)
        \<and> getFileHandle v2 ''/sandbox'' ''out.txt'' True = (Inr h, v2)
        \<and> run_redirected limit v2 h ''>>'' [utf8_encode (''b'' @ [CHR 0x0A])] = (Inr (), v3)
        \<and> readFileSync v3 ''/sandbox/out.txt''
            = Inr (utf8_encode (''a'' @ [CHR 0x0A] @ ''b'' @ [CHR 0x0A]))
        \<and> map_sum id file_size (getFile v3 ''/sandbox/out.txt'') = Inr 4"
    by (rule redirect_append_scenario)
qed

theorem keep_existing_appends_on_close_witness:
  "valid_name ''out.txt''
   \<and> readFileSync (Dir [(''sandbox'', Dir [(''out.txt'', File [0x61, 0x0A])])])
        (entry_path ''/sandbox'' ''out.txt'') = Inr [0x61, 0x0A]
   \<and> int (length [0x61 :: byte, 0x0A]) + int (length [0x62 :: byte, 0x0A])
        \<le> max (int (length [0x61 :: byte, 0x0A])) (max_byte_length 4294967295)
   \<and> (\<exists>s0 s1 vol'.
           MemfsWritableFileStream (Dir [(''sandbox'', Dir [(''out.txt'', File [0x61, 0x0A])])])
             (entry_path ''/sandbox'' ''out.txt'') True = Inr s0
         \<and> data s0 = [0x61, 0x0A] \<and> position s0 = 2
         \<and> write_stream 4294967295 s0 (Chunk [0x62, 0x0A]) = (Inr (), s1)
         \<and> close (Dir [(''sandbox'', Dir [(''out.txt'', File [0x61, 0x0A])])]) s1
              = (Inr (), vol', s1\<lparr>closed := True\<rparr>)
         \<and> readFileSync vol' (entry_path ''/sandbox'' ''out.txt'')
              = Inr [0x61, 0x0A, 0x62, 0x0A])
   \<and> 4 \<le> max_byte_length 4294967295
   \<and> (\<exists>root v0 h v1 v2 v3.
          createMemoryFileSystem = Inr (root, v0)
        \<and> getFileHandle v0 ''/sandbox'' ''out.txt'' True = (Inr h, v1)
        \<and> run_redirected 4294967295 v1 h ''>'' [utf8_encode (''a'' @ [CHR 0x0A])] = (Inr (), v2)
        \<and> getFileHandle v2 ''/sandbox'' ''out.txt'' True = (Inr h, v2)
        \<and> run_redirected 4294967295 v2 h ''>>'' [utf8_encode (''b'' @ [CHR 0x0A])]
            = (Inr (), v3)
        \<and> readFileSync v3 ''/sandbox/out.txt''
            = Inr (utf8_encode (''a'' @ [CHR 0x0A] @ ''b'' @ [CHR 0x0A]))
        \<and> map_sum id file_size (getFile v3 ''/sandbox/out.txt'') = Inr 4)"
proof -
  have a: "valid_name ''out.txt''"
    by (simp add: valid_name_def)
  have b: "readFileSync (Dir [(''sandbox'', Dir [(''out.txt'', File [0x61, 0x0A])])])
        (entry_path ''/sandbox'' ''out.txt'') = Inr [0x61, 0x0A]"
    by (simp add: readFileSync_def entry_path_def steps_out)
  have c: "int (length [0x61 :: byte, 0x0A]) + int (length [0x62 :: byte, 0x0A])
        \<le> max (int (length [0x61 :: byte, 0x0A])) (max_byte_length 4294967295)"
    by (simp add: max_byte_length_def)
  have d: "4 \<le> max_byte_length 4294967295"
    by (simp add: max_byte_length_def)
  note r = keep_existing_appends_on_close
    [where name = "''out.txt''"
       and vol = "Dir [(''sandbox'', Dir [(''out.txt'', File [0x61, 0x0A])])]"
       and this_path = "''/sandbox''" and c = "[0x61, 0x0A]" and b = "[0x62, 0x0A]"
       and limit = 4294967295,
     THEN conjunct1, THEN mp, OF conjI [OF a b]]
  have e: "\<exists>s0 s1 vol'.
           MemfsWritableFileStream (Dir [(''sandbox'', Dir [(''out.txt'', File [0x61, 0x0A])])])
             (entry_path ''/sandbox'' ''out.txt'') True = Inr s0
         \<and> data s0 = [0x61, 0x0A] \<and> position s0 = 2
         \<and> write_stream 4294967295 s0 (Chunk [0x62, 0x0A]) = (Inr (), s1)
         \<and> close (Dir [(''sandbox'', Dir [(''out.txt'', File [0x61, 0x0A])])]) s1
              = (Inr (), vol', s1\<lparr>closed := True\<rparr>)
         \<and> readFileSync vol' (entry_path ''/sandbox'' ''out.txt'')
              = Inr [0x61, 0x0A, 0x62, 0x0A]"
  proof -
    from r obtain s0 where
      s0: "MemfsWritableFileStream (Dir [(''sandbox'', Dir [(''out.txt'', File [0x61, 0x0A])])])
             (entry_path ''/sandbox'' ''out.txt'') True = Inr s0"
        "data s0 = [0x61, 0x0A]" "position s0 = int (length [0x61 :: byte, 0x0A])"
      and w: "int (length [0x61 :: byte, 0x0A]) + int (length [0x62 :: byte, 0x0A])
                \<le> max (int (length [0x61 :: byte, 0x0A])) (max_byte_length 4294967295) \<longrightarrow>
             (\<exists>s1 vol'.
                 write_stream 4294967295 s0 (Chunk [0x62, 0x0A]) = (Inr (), s1)
               \<and> close (Dir [(''sandbox'', Dir [(''out.txt'', File [0x61, 0x0A])])]) s1
                    = (Inr (), vol', s1\<lparr>closed := True\<rparr>)
               \<and> readFileSync vol' (entry_path ''/sandbox'' ''out.txt'')
                    = Inr ([0x61, 0x0A] @ [0x62, 0x0A]))"
      by blast
    from w [THEN mp, OF c] obtain s1 vol' where
      "write_stream 4294967295 s0 (Chunk [0x62, 0x0A]) = (Inr (), s1)"
      "close (Dir [(''sandbox'', Dir [(''out.txt'', File [0x61, 0x0A])])]) s1
         = (Inr (), vol', s1\<lparr>closed := True\<rparr>)"
      "readFileSync vol' (entry_path ''/sandbox'' ''out.txt'') = Inr [0x61, 0x0A, 0x62, 0x0A]"
      by auto
    with s0 show ?thesis by auto
  qed
  note r2 = keep_existing_appends_on_close
    [where limit = 4294967295, THEN conjunct2, THEN mp, OF d]
  show ?thesis
    by (intro conjI a b c e d r2)
qed

text \<open>
  On an engine whose typed arrays hold at most \<open>2 ^ 32\<close> bytes, take a file of
  \<open>2 ^ 32 - 1\<close> bytes. The stream constructed with \<open>keepExistingData\<close> holds its content;
  the write of two more bytes needs \<open>2 ^ 32 + 1\<close> bytes and raises the \<^verbatim>\<open>RangeError\<close> of
  \<^verbatim>\<open>new Uint8Array\<close>, and \<^verbatim>\<open>close\<close> publishes the content the file had.
\<close>

theorem keep_existing_beyond_limit_counterexample:
  "valid_name ''out.txt''
   \<and> readFileSync (Dir [(''sandbox'', Dir [(''out.txt'', File (replicate 4294967295 0))])])
        (entry_path ''/sandbox'' ''out.txt'') = Inr (replicate 4294967295 0)
   \<and> MemfsWritableFileStream
        (Dir [(''sandbox'', Dir [(''out.txt'', File (replicate 4294967295 0))])])
        (entry_path ''/sandbox'' ''out.txt'') True
     = Inr \<lparr>path = ''/sandbox/out.txt'', data = replicate 4294967295 0,
            position = 4294967295, closed = False\<rparr>
   \<and> write_stream 4294967296
        \<lparr>path = ''/sandbox/out.txt'', data = replicate 4294967295 0,
          position = 4294967295, closed = False\<rparr>
        (Chunk [0x62, 0x0A])
     = (Inl RangeError,
        \<lparr>path = ''/sandbox/out.txt'', data = replicate 4294967295 0,
          position = 4294967295, closed = False\<rparr>)
   \<and> close (Dir [(''sandbox'', Dir [(''out.txt'', File (replicate 4294967295 0))])])
        \<lparr>path = ''/sandbox/out.txt'', data = replicate 4294967295 0,
          position = 4294967295, closed = False\<rparr>
     = (Inr (), Dir [(''sandbox'', Dir [(''out.txt'', File (replicate 4294967295 0))])],
        \<lparr>path = ''/sandbox/out.txt'', data = replicate 4294967295 0,
          position = 4294967295, closed = True\<rparr>)
   \<and> readFileSync (Dir [(''sandbox'', Dir [(''out.txt'', File (replicate 4294967295 0))])])
        (entry_path ''/sandbox'' ''out.txt'')
     \<noteq> Inr (replicate 4294967295 0 @ [0x62, 0x0A])"
proof -
  define c :: "byte list" where "c = replicate 4294967295 0"
  have len: "int (length c) = 4294967295"
    by (simp add: c_def)
  have a: "valid_name ''out.txt''"
    by (simp add: valid_name_def)
  have b: "readFileSync (Dir [(''sandbox'', Dir [(''out.txt'', File c)])])
        (entry_path ''/sandbox'' ''out.txt'') = Inr c"
    by (simp add: readFileSync_def entry_path_def steps_out)
  have m: "MemfsWritableFileStream (Dir [(''sandbox'', Dir [(''out.txt'', File c)])])
        (entry_path ''/sandbox'' ''out.txt'') True
     = Inr \<lparr>path = ''/sandbox/out.txt'', data = c, position = 4294967295, closed = False\<rparr>"
    using len
    by (simp add: MemfsWritableFileStream_def readFileSync_def entry_path_def steps_out Let_def)
  have w: "write_stream 4294967296
        \<lparr>path = ''/sandbox/out.txt'', data = c, position = 4294967295, closed = False\<rparr>
        (Chunk [0x62, 0x0A])
     = (Inl RangeError,
        \<lparr>path = ''/sandbox/out.txt'', data = c, position = 4294967295, closed = False\<rparr>)"
    using len
    by (intro write_beyond_limit) (simp_all add: writePosition_def writeData_def max_byte_length_def)
  have cl: "close (Dir [(''sandbox'', Dir [(''out.txt'', File c)])])
        \<lparr>path = ''/sandbox/out.txt'', data = c, position = 4294967295, closed = False\<rparr>
     = (Inr (), Dir [(''sandbox'', Dir [(''out.txt'', File c)])],
        \<lparr>path = ''/sandbox/out.txt'', data = c, position = 4294967295, closed = True\<rparr>)"
    by (simp add: close_def dir_out mkdirSync_def writeFileSync_def steps_sandbox steps_out
        Let_def)
  have ne: "readFileSync (Dir [(''sandbox'', Dir [(''out.txt'', File c)])])
        (entry_path ''/sandbox'' ''out.txt'') \<noteq> Inr (c @ [0x62, 0x0A])"
    unfolding b by simp
  show ?thesis
    using a b m w cl ne unfolding c_def by (intro conjI)
qed

end
